theory Spec2Isabelle
  imports Main "HOL-Library.Word"
begin

unbundle bit_operations_syntax

section \<open>Python values used by eachare.py\<close>

text \<open>
  The node is the single file \<^verbatim>\<open>src/eachare.py\<close>. Its strings are modelled as
  \<^typ>\<open>string\<close> restricted to ASCII (one \<^typ>\<open>char\<close> per code point), its integers as
  \<^typ>\<open>int\<close>, file contents as lists of 8-bit words.
\<close>

type_synonym byte = "8 word"

datatype py_error = ValueError | KeyError | AttributeError

subsection \<open>str.strip, str.split, str.join\<close>

text \<open>\<^verbatim>\<open>str.isspace\<close> on the ASCII range: tab, LF, VT, FF, CR, FS, GS, RS, US, space.\<close>

definition is_space :: "char \<Rightarrow> bool" where
  "is_space c = (c \<in> set [CHR 0x09, CHR 0x0A, CHR 0x0B, CHR 0x0C, CHR 0x0D,
                          CHR 0x1C, CHR 0x1D, CHR 0x1E, CHR 0x1F, CHR 0x20])"

definition py_strip :: "string \<Rightarrow> string" where
  "py_strip s = rev (dropWhile is_space (rev (dropWhile is_space s)))"

text \<open>\<^verbatim>\<open>s.split()\<close>: maximal runs of non-whitespace; \<open>cur\<close> is the token being read.\<close>

fun split_ws :: "string \<Rightarrow> string \<Rightarrow> string list" where
  "split_ws cur [] = (if cur = [] then [] else [cur])"
| "split_ws cur (c # cs) =
     (if is_space c then (if cur = [] then split_ws [] cs else cur # split_ws [] cs)
      else split_ws (cur @ [c]) cs)"

definition py_split :: "string \<Rightarrow> string list" where
  "py_split s = split_ws [] s"

text \<open>\<^verbatim>\<open>s.split(sep)\<close> for a one-character separator: empty fields are kept.\<close>

fun split_sep :: "char \<Rightarrow> string \<Rightarrow> string \<Rightarrow> string list" where
  "split_sep sep cur [] = [cur]"
| "split_sep sep cur (c # cs) =
     (if c = sep then cur # split_sep sep [] cs else split_sep sep (cur @ [c]) cs)"

definition py_split_on :: "char \<Rightarrow> string \<Rightarrow> string list" where
  "py_split_on sep s = split_sep sep [] s"

fun py_join :: "string \<Rightarrow> string list \<Rightarrow> string" where
  "py_join sep [] = []"
| "py_join sep [x] = x"
| "py_join sep (x # y # ys) = x @ sep @ py_join sep (y # ys)"

subsection \<open>str(int) and int(str)\<close>

text \<open>\<^verbatim>\<open>ord(c)\<close>.\<close>

definition ord :: "char \<Rightarrow> nat" where
  "ord c = of_char c"

definition digit_char :: "nat \<Rightarrow> char" where
  "digit_char d = ''0123456789'' ! d"

fun show_nat :: "nat \<Rightarrow> string" where
  "show_nat n = (if n < 10 then [digit_char n] else show_nat (n div 10) @ [digit_char (n mod 10)])"

declare show_nat.simps [simp del]

definition show_int :: "int \<Rightarrow> string" where
  "show_int i = (if i < 0 then CHR ''-'' # show_nat (nat (- i)) else show_nat (nat i))"

definition is_digit :: "char \<Rightarrow> bool" where
  "is_digit c = (48 \<le> ord c \<and> ord c \<le> 57)"

definition digit_val :: "char \<Rightarrow> nat" where
  "digit_val c = ord c - 48"

text \<open>
  The digits of an integer literal, most significant first. Python accepts single
  underscores between digits; \<open>prev\<close> tells whether the previous character was a digit.
\<close>

fun read_digits :: "bool \<Rightarrow> nat \<Rightarrow> string \<Rightarrow> nat option" where
  "read_digits prev acc [] = (if prev then Some acc else None)"
| "read_digits prev acc (c # cs) =
     (if is_digit c then read_digits True (acc * 10 + digit_val c) cs
      else if c = CHR ''_'' \<and> prev then read_digits False acc cs
      else None)"

text \<open>\<^verbatim>\<open>int(s)\<close> in base 10; \<open>None\<close> stands for the \<^verbatim>\<open>ValueError\<close>.\<close>

definition py_int :: "string \<Rightarrow> int option" where
  "py_int s =
     (case py_strip s of
        [] \<Rightarrow> None
      | c # cs \<Rightarrow>
          if c = CHR ''-'' then map_option (\<lambda>n. - int n) (read_digits False 0 cs)
          else if c = CHR ''+'' then map_option int (read_digits False 0 cs)
          else map_option int (read_digits False 0 (c # cs)))"

subsection \<open>base64.b64encode and base64.b64decode\<close>

definition b64_alphabet :: string where
  "b64_alphabet = ''ABCDEFGHIJKLMNOPQRSTUVWXYZabcdefghijklmnopqrstuvwxyz0123456789+/''"

definition enc6 :: "byte \<Rightarrow> char" where
  "enc6 w = b64_alphabet ! unat (w AND 63)"

fun b64encode :: "byte list \<Rightarrow> string" where
  "b64encode [] = []"
| "b64encode [a] =
     [enc6 (drop_bit 2 a), enc6 (push_bit 4 (a AND 3)), CHR ''='', CHR ''='']"
| "b64encode [a, b] =
     [enc6 (drop_bit 2 a), enc6 (push_bit 4 (a AND 3) OR drop_bit 4 b),
      enc6 (push_bit 2 (b AND 15)), CHR ''='']"
| "b64encode (a # b # c # rest) =
     [enc6 (drop_bit 2 a), enc6 (push_bit 4 (a AND 3) OR drop_bit 4 b),
      enc6 (push_bit 2 (b AND 15) OR drop_bit 6 c), enc6 (c AND 63)] @ b64encode rest"

text \<open>The value of a base64 digit, \<open>None\<close> for a character outside the alphabet.\<close>

definition dec6 :: "char \<Rightarrow> byte option" where
  "dec6 c =
     (if 65 \<le> ord c \<and> ord c \<le> 90 then Some (of_nat (ord c - 65))
      else if 97 \<le> ord c \<and> ord c \<le> 122 then Some (of_nat (ord c - 97 + 26))
      else if 48 \<le> ord c \<and> ord c \<le> 57 then Some (of_nat (ord c + 4))
      else if c = CHR ''+'' then Some 62
      else if c = CHR ''/'' then Some 63
      else None)"

text \<open>
  \<^verbatim>\<open>base64.b64decode(s)\<close> with its default \<^verbatim>\<open>validate=False\<close> is CPython's
  \<^verbatim>\<open>binascii.a2b_base64\<close> in non-strict mode: a scan with the position in the current
  quad (\<open>quad_pos\<close>), the bits left over (\<open>leftchar\<close>) and the count of pad characters
  (\<open>pads\<close>). Characters outside the alphabet are skipped, a complete pad sequence ends
  the scan, and an incomplete quad at the end of the input raises \<^verbatim>\<open>binascii.Error\<close>,
  a subclass of \<^verbatim>\<open>ValueError\<close>.
\<close>

fun a2b_base64 :: "nat \<Rightarrow> byte \<Rightarrow> nat \<Rightarrow> string \<Rightarrow> py_error + byte list" where
  "a2b_base64 quad_pos leftchar pads [] = (if quad_pos \<noteq> 0 then Inl ValueError else Inr [])"
| "a2b_base64 quad_pos leftchar pads (c # cs) =
     (if c = CHR ''='' then
        (if quad_pos \<ge> 2 \<and> quad_pos + (pads + 1) \<ge> 4 then Inr []
         else a2b_base64 quad_pos leftchar (if quad_pos \<ge> 2 then pads + 1 else pads) cs)
      else
        (case dec6 c of
           None \<Rightarrow> a2b_base64 quad_pos leftchar pads cs
         | Some this_ch \<Rightarrow>
             if quad_pos = 0 then a2b_base64 1 this_ch 0 cs
             else if quad_pos = 1 then
               map_sum id ((#) (push_bit 2 leftchar OR drop_bit 4 this_ch))
                 (a2b_base64 2 (this_ch AND 15) 0 cs)
             else if quad_pos = 2 then
               map_sum id ((#) (push_bit 4 leftchar OR drop_bit 2 this_ch))
                 (a2b_base64 3 (this_ch AND 3) 0 cs)
             else
               map_sum id ((#) (push_bit 6 leftchar OR this_ch))
                 (a2b_base64 0 0 0 cs)))"

definition b64decode :: "string \<Rightarrow> py_error + byte list" where
  "b64decode s = a2b_base64 0 0 0 s"

subsection \<open>dict with insertion order\<close>

text \<open>
  A Python \<^verbatim>\<open>dict\<close> keeps its keys in insertion order; \<^verbatim>\<open>d[k] = v\<close> replaces the value
  of a present key in place and appends an absent one. Lookup is \<^const>\<open>map_of\<close>.
\<close>

fun dict_set :: "'k \<Rightarrow> 'v \<Rightarrow> ('k \<times> 'v) list \<Rightarrow> ('k \<times> 'v) list" where
  "dict_set k v [] = [(k, v)]"
| "dict_set k v ((k', v') # kvs) =
     (if k' = k then (k, v) # kvs else (k', v') # dict_set k v kvs)"

text \<open>\<^verbatim>\<open>os.path.join(a, b)\<close> on POSIX.\<close>

definition path_join :: "string \<Rightarrow> string \<Rightarrow> string" where
  "path_join a b =
     (case b of
        c # _ \<Rightarrow>
          if c = CHR ''/'' then b
          else if a = [] then a @ b
          else if last a = CHR ''/'' then a @ b
          else a @ ''/'' @ b
      | [] \<Rightarrow> if a = [] then a else if last a = CHR ''/'' then a else a @ ''/'')"

section \<open>The node: global state and observable effects\<close>

text \<open>
  The module's globals (\<^verbatim>\<open>global_clock\<close>, \<^verbatim>\<open>peers\<close>, \<^verbatim>\<open>server_id\<close>, \<^verbatim>\<open>shared_dir\<close>)
  are the fields of \<open>node\<close>. The regular files the process can see are \<open>files\<close>, keyed
  by path. Everything the code does to the outside is appended to \<open>trace\<close> in program
  order: each \<^verbatim>\<open>print\<close>, each socket call and each file written. The model is
  sequential: one function runs at a time, as under the two locks when no other thread
  interleaves.
\<close>

record peer_info =
  status :: string
  clock :: int

text \<open>The lines the program prints; each constructor is one \<^verbatim>\<open>print\<close> of the source.\<close>

datatype log_line =
    ClockLine int                    \<comment> \<open>"=> Atualizando relogio para N" (lines 31, 100)\<close>
  | ForwardLine string string        \<comment> \<open>"Encaminhando mensagem M para P" (line 60)\<close>
  | TimeoutLine string nat int       \<comment> \<open>"Timeout ao conectar com P (tentativa i/n)" (line 69)\<close>
  | RefusedLine string               \<comment> \<open>line 71\<close>
  | SendErrorLine string             \<comment> \<open>line 74\<close>
  | ReceivedLine string              \<comment> \<open>"Mensagem recebida: D" (line 87)\<close>
  | UpdateLine string string int     \<comment> \<open>"Atualizando peer P status S e relogio para C" (lines 109, 401)\<close>
  | StatusLine string string         \<comment> \<open>"Atualizando peer P status S" (lines 131, 199, 208, 358, 412, 421)\<close>
  | AddLine string string int        \<comment> \<open>"Adicionando novo peer P status S e relogio para C" (line 404)\<close>
  | NeighborLine string              \<comment> \<open>"Adicionando novo peer P status OFFLINE e relogio 0" (line 305)\<close>
  | ReplyErrorLine string            \<comment> \<open>line 124\<close>
  | LsErrorLine string               \<comment> \<open>line 144\<close>
  | NotFoundLine string              \<comment> \<open>line 157\<close>
  | HandlerErrorLine                 \<comment> \<open>line 159\<close>
  | CountWarnLine nat int            \<comment> \<open>line 384\<close>
  | PeerErrorLine string             \<comment> \<open>line 406\<close>
  | InvalidReplyLine string string   \<comment> \<open>lines 201, 247, 414\<close>
  | ProcessErrorLine string          \<comment> \<open>lines 203, 416\<close>
  | FoundHeaderLines                 \<comment> \<open>lines 211 to 213\<close>
  | FoundLine nat string int string  \<comment> \<open>line 215\<close>
  | InvalidOptionLine                \<comment> \<open>line 221\<close>
  | ReplyReceivedLine string         \<comment> \<open>line 230\<close>
  | DownloadDoneLine string          \<comment> \<open>line 243\<close>
  | EmptyContentLine string          \<comment> \<open>line 245\<close>
  | DownloadFailedLine string        \<comment> \<open>line 249\<close>
  | InvalidNumberLine                \<comment> \<open>line 252\<close>

datatype event =
    Print log_line
  | Connect string                   \<comment> \<open>\<^verbatim>\<open>sock.connect\<close> is called for this peer\<close>
  | SockSend string string           \<comment> \<open>\<^verbatim>\<open>sock.sendall\<close> is called: peer, text\<close>
  | ConnSend string                  \<comment> \<open>\<^verbatim>\<open>conn.sendall\<close> is called on an accepted connection\<close>
  | ConnClose                        \<comment> \<open>\<^verbatim>\<open>conn.close()\<close>\<close>
  | FileWrite string "byte list"     \<comment> \<open>a file is opened for writing and written\<close>

record node =
  server_id :: string
  shared_dir :: string
  global_clock :: int
  peers :: "(string \<times> peer_info) list"
  files :: "(string \<times> byte list) list"
  trace :: "event list"

definition emit :: "event \<Rightarrow> node \<Rightarrow> node" where
  "emit e st = st\<lparr>trace := trace st @ [e]\<rparr>"

definition say :: "log_line \<Rightarrow> node \<Rightarrow> node" where
  "say l st = emit (Print l) st"

text \<open>\<^verbatim>\<open>update_clock\<close> (lines 24 to 32).\<close>

definition update_clock :: "node \<Rightarrow> int \<times> node" where
  "update_clock st =
     (let c = global_clock st + 1
      in (c, say (ClockLine c) (st\<lparr>global_clock := c\<rparr>)))"

section \<open>send\_message (lines 34 to 76)\<close>

text \<open>
  What happens to one connection attempt is decided by the network, so it is a parameter:
  the attempt fails in \<^verbatim>\<open>connect\<close>, in \<^verbatim>\<open>sendall\<close> or in \<^verbatim>\<open>recv\<close>, with one of the
  three exception classes the function tells apart, or the exchange succeeds and
  \<^verbatim>\<open>recv(4096).decode()\<close> returns a text (the empty text when the peer closes without
  sending).
\<close>

datatype io_error = Timeout | Refused | OtherIO

datatype attempt =
    ConnectFails io_error
  | SendFails io_error
  | RecvFails io_error
  | Answer string

text \<open>The three kinds of return value: the reply text, \<^verbatim>\<open>True\<close>, \<^verbatim>\<open>None\<close>.\<close>

datatype send_result = Reply string | Sent | Failed

datatype step = Done send_result | Retry

text \<open>The three \<^verbatim>\<open>except\<close> clauses (lines 68 to 74).\<close>

definition on_error :: "string \<Rightarrow> nat \<Rightarrow> int \<Rightarrow> io_error \<Rightarrow> node \<Rightarrow> step \<times> node" where
  "on_error peer_addr attempt max_retries e st =
     (case e of
        Timeout \<Rightarrow> (Retry, say (TimeoutLine peer_addr (attempt + 1) max_retries) st)
      | Refused \<Rightarrow> (Done Failed, say (RefusedLine peer_addr) st)
      | OtherIO \<Rightarrow> (Retry, say (SendErrorLine peer_addr) st))"

text \<open>
  Lines 57 to 61, after \<^verbatim>\<open>connect\<close> has returned: the clock is advanced, the request
  is formatted with the new value, announced and handed to \<^verbatim>\<open>sendall\<close>.
\<close>

definition write_request :: "string \<Rightarrow> string \<Rightarrow> node \<Rightarrow> node" where
  "write_request peer_addr message st =
     (let (msg_clock, st1) = update_clock st;
          formatted_message =
            server_id st @ '' '' @ show_int msg_clock @ '' '' @ py_strip message @ [CHR 0x0A]
      in emit (SockSend peer_addr formatted_message)
           (say (ForwardLine (py_strip formatted_message) peer_addr) st1))"

text \<open>
  The body of the \<^verbatim>\<open>for\<close> loop: one attempt (lines 53 to 74). The \<open>timeout\<close>
  parameter of the source only decides which attempts time out, which is the network's
  part here.
\<close>

definition try_send ::
  "attempt \<Rightarrow> string \<Rightarrow> string \<Rightarrow> bool \<Rightarrow> int \<Rightarrow> nat \<Rightarrow> node \<Rightarrow> step \<times> node" where
  "try_send a peer_addr message expect_reply max_retries attempt st =
     (let st1 = emit (Connect peer_addr) st in
      case a of
        ConnectFails e \<Rightarrow> on_error peer_addr attempt max_retries e st1
      | SendFails e \<Rightarrow>
          on_error peer_addr attempt max_retries e (write_request peer_addr message st1)
      | RecvFails e \<Rightarrow>
          if expect_reply
          then on_error peer_addr attempt max_retries e (write_request peer_addr message st1)
          else (Done Sent, write_request peer_addr message st1)
      | Answer reply \<Rightarrow>
          if expect_reply then (Done (Reply reply), write_request peer_addr message st1)
          else (Done Sent, write_request peer_addr message st1))"

text \<open>\<^verbatim>\<open>for attempt in range(max_retries)\<close>, and line 76 when the range is used up.\<close>

fun send_attempts ::
  "(nat \<Rightarrow> attempt) \<Rightarrow> string \<Rightarrow> string \<Rightarrow> bool \<Rightarrow> int \<Rightarrow> nat list \<Rightarrow> node
     \<Rightarrow> send_result \<times> node" where
  "send_attempts script peer_addr message expect_reply max_retries [] st = (Failed, st)"
| "send_attempts script peer_addr message expect_reply max_retries (attempt # rest) st =
     (case try_send (script attempt) peer_addr message expect_reply max_retries attempt st of
        (Done r, st') \<Rightarrow> (r, st')
      | (Retry, st') \<Rightarrow> send_attempts script peer_addr message expect_reply max_retries rest st')"

text \<open>
  Lines 49 and 50: the address must split at \<^verbatim>\<open>":"\<close> into exactly two fields and the
  second must be an integer, else \<^verbatim>\<open>ValueError\<close> leaves the function.
\<close>

definition parse_addr :: "string \<Rightarrow> (string \<times> int) option" where
  "parse_addr peer_addr =
     (case py_split_on (CHR '':'') peer_addr of
        [ip, port_str] \<Rightarrow> map_option (Pair ip) (py_int port_str)
      | _ \<Rightarrow> None)"

definition send_message ::
  "(nat \<Rightarrow> attempt) \<Rightarrow> string \<Rightarrow> string \<Rightarrow> bool \<Rightarrow> int \<Rightarrow> node
     \<Rightarrow> (py_error + send_result) \<times> node" where
  "send_message script peer_addr message expect_reply max_retries st =
     (case parse_addr peer_addr of
        None \<Rightarrow> (Inl ValueError, st)
      | Some _ \<Rightarrow>
          (case send_attempts script peer_addr message expect_reply max_retries
                  [0..<nat max_retries] st of
             (r, st') \<Rightarrow> (Inr r, st')))"

section \<open>handle\_client (lines 77 to 164)\<close>

text \<open>
  What the accepted connection and the operating system give the handler:
  \<open>recv_data\<close> is the result of \<^verbatim>\<open>conn.recv(4096).decode()\<close> (\<open>None\<close> when it raises),
  \<open>send_ok\<close> tells whether \<^verbatim>\<open>conn.sendall\<close> returns normally, and \<open>listing\<close> is the
  result of \<^verbatim>\<open>os.listdir(shared_dir)\<close> with each entry's \<^verbatim>\<open>os.path.getsize\<close>
  (\<open>None\<close> when one of them raises).
\<close>

record conn =
  recv_data :: "string option"
  send_ok :: bool
  listing :: "(string \<times> nat) list option"

text \<open>Lines 97 to 100: the receive-side clock update.\<close>

definition observe :: "int \<Rightarrow> node \<Rightarrow> node" where
  "observe msg_clock st =
     (let c = max (global_clock st) msg_clock + 1
      in say (ClockLine c) (st\<lparr>global_clock := c\<rparr>))"

text \<open>Lines 104 to 109: the HELLO branch.\<close>

definition hello_handler :: "string \<Rightarrow> int \<Rightarrow> node \<Rightarrow> node" where
  "hello_handler origem msg_clock st =
     say (UpdateLine origem ''ONLINE'' msg_clock)
       (case map_of (peers st) origem of
          None \<Rightarrow>
            st\<lparr>peers := dict_set origem \<lparr>status = ''ONLINE'', clock = msg_clock\<rparr> (peers st)\<rparr>
        | Some info \<Rightarrow>
            if status info \<noteq> ''ONLINE''
            then st\<lparr>peers := dict_set origem \<lparr>status = ''ONLINE'', clock = msg_clock\<rparr> (peers st)\<rparr>
            else st\<lparr>peers := dict_set origem (info\<lparr>clock := msg_clock\<rparr>) (peers st)\<rparr>)"

text \<open>Lines 112 to 124: the GET\_PEERS branch.\<close>

definition peer_entry :: "string \<times> peer_info \<Rightarrow> string" where
  "peer_entry p = fst p @ '':'' @ status (snd p) @ '':'' @ show_int (clock (snd p))"

definition get_peers_handler :: "conn \<Rightarrow> string \<Rightarrow> node \<Rightarrow> node" where
  "get_peers_handler c origem st =
     (let lista_peers = map peer_entry (filter (\<lambda>p. fst p \<noteq> origem) (peers st));
          total = length lista_peers;
          (now, st1) = update_clock st;
          reply_msg =
            server_id st @ '' '' @ show_int now @ '' PEER_LIST '' @ show_nat total
              @ (if total > 0 then '' '' @ py_join '' '' lista_peers else [])
              @ [CHR 0x0A];
          st2 = emit (ConnSend reply_msg) st1
      in if send_ok c then st2 else say (ReplyErrorLine origem) st2)"

text \<open>Lines 128 to 131: the BYE branch.\<close>

definition bye_handler :: "string \<Rightarrow> node \<Rightarrow> node" where
  "bye_handler origem st =
     (case map_of (peers st) origem of
        None \<Rightarrow> st
      | Some info \<Rightarrow>
          if status info \<noteq> ''OFFLINE''
          then say (StatusLine origem ''OFFLINE'')
                 (st\<lparr>peers := dict_set origem (info\<lparr>status := ''OFFLINE''\<rparr>) (peers st)\<rparr>)
          else st)"

text \<open>Lines 134 to 144: the LS branch.\<close>

definition file_entry :: "string \<times> nat \<Rightarrow> string" where
  "file_entry f = fst f @ '':'' @ show_nat (snd f)"

definition ls_handler :: "conn \<Rightarrow> string \<Rightarrow> node \<Rightarrow> node" where
  "ls_handler c origem st =
     (case listing c of
        None \<Rightarrow> say (LsErrorLine origem) st
      | Some entries \<Rightarrow>
         (let files_info = map file_entry entries;
              total_files = length files_info;
              (now, st1) = update_clock st;
              reply_msg =
                server_id st @ '' '' @ show_int now @ '' LS_LIST '' @ show_nat total_files
                  @ (if total_files > 0 then '' '' @ py_join '' '' files_info else [])
                  @ [CHR 0x0A];
              st2 = emit (ConnSend reply_msg) st1
          in if send_ok c then st2 else say (LsErrorLine origem) st2))"

text \<open>
  Lines 147 to 157: the DL branch. A failing \<^verbatim>\<open>sendall\<close> is caught by the outer
  \<^verbatim>\<open>except\<close> of line 158.
\<close>

definition dl_handler :: "conn \<Rightarrow> string list \<Rightarrow> node \<Rightarrow> node" where
  "dl_handler c parts st =
     (if length parts \<ge> 4 then
        (let nome_arquivo = parts ! 3;
             caminho_arquivo = path_join (shared_dir st) nome_arquivo
         in case map_of (files st) caminho_arquivo of
              None \<Rightarrow> say (NotFoundLine nome_arquivo) st
            | Some conteudo_binario \<Rightarrow>
               (let conteudo_base64 = b64encode conteudo_binario;
                    (now, st1) = update_clock st;
                    reply_msg =
                      server_id st @ '' '' @ show_int now @ '' FILE '' @ nome_arquivo
                        @ '' 0 0 '' @ conteudo_base64 @ [CHR 0x0A];
                    st2 = emit (ConnSend reply_msg) st1
                in if send_ok c then st2 else say HandlerErrorLine st2))
      else st)"

text \<open>Lines 102 to 157: the dispatch on the message type.\<close>

definition dispatch :: "conn \<Rightarrow> string \<Rightarrow> int \<Rightarrow> string \<Rightarrow> string list \<Rightarrow> node \<Rightarrow> node" where
  "dispatch c origem msg_clock msg_type parts st =
     (if msg_type = ''HELLO'' then hello_handler origem msg_clock st
      else if msg_type = ''GET_PEERS'' then get_peers_handler c origem st
      else if msg_type = ''BYE'' then bye_handler origem st
      else if msg_type = ''LS'' then ls_handler c origem st
      else if msg_type = ''DL'' then dl_handler c parts st
      else st)"

text \<open>Lines 82 to 159: the \<^verbatim>\<open>try\<close> block with its \<^verbatim>\<open>except\<close>.\<close>

definition handle_body :: "conn \<Rightarrow> node \<Rightarrow> node" where
  "handle_body c st =
     (case recv_data c of
        None \<Rightarrow> say HandlerErrorLine st
      | Some raw \<Rightarrow>
          if raw = [] then st
          else
           (let data = py_strip raw;
                st1 = say (ReceivedLine data) st;
                parts = py_split data
            in if length parts < 3 then st1
               else
                (let origem = parts ! 0; msg_type = parts ! 2
                 in case py_int (parts ! 1) of
                      None \<Rightarrow> say HandlerErrorLine st1
                    | Some msg_clock \<Rightarrow>
                        dispatch c origem msg_clock msg_type parts (observe msg_clock st1))))"

text \<open>The whole function: the \<^verbatim>\<open>finally\<close> clause closes the connection on every path.\<close>

definition handle_client :: "conn \<Rightarrow> node \<Rightarrow> node" where
  "handle_client c st = emit ConnClose (handle_body c st)"

section \<open>load\_neighbors (lines 288 to 305)\<close>

text \<open>The body of \<^verbatim>\<open>for line in f\<close> (lines 300 to 305).\<close>

definition load_line :: "string \<Rightarrow> node \<Rightarrow> node" where
  "load_line raw st =
     (let line = py_strip raw in
      if line \<noteq> [] \<and> line \<noteq> server_id st then
        (case map_of (peers st) line of
           None \<Rightarrow>
             say (NeighborLine line)
               (st\<lparr>peers := dict_set line \<lparr>status = ''OFFLINE'', clock = 0\<rparr> (peers st)\<rparr>)
         | Some _ \<Rightarrow> st)
      else st)"

fun load_lines :: "string list \<Rightarrow> node \<Rightarrow> node" where
  "load_lines [] st = st"
| "load_lines (raw # rest) st = load_lines rest (load_line raw st)"

text \<open>
  The argument is the content of the neighbour file as its lines, \<open>None\<close> when the path
  is not a file; then the process exits with status 1 (\<open>Inl 1\<close>).
\<close>

definition load_neighbors :: "string list option \<Rightarrow> node \<Rightarrow> nat + node" where
  "load_neighbors neighbors_file st =
     (case neighbors_file of
        None \<Rightarrow> Inl 1
      | Some ls \<Rightarrow> Inr (load_lines ls st))"

section \<open>command\_get\_peers (lines 363 to 421)\<close>

text \<open>
  The status update repeated at lines 197 to 199, 206 to 208, 356 to 358, 410 to 412
  and 419 to 421: \<^verbatim>\<open>peers[peer_addr]\<close> raises \<^verbatim>\<open>KeyError\<close> for an unknown peer.
\<close>

definition set_status :: "string \<Rightarrow> string \<Rightarrow> node \<Rightarrow> py_error + node" where
  "set_status peer_addr new_status st =
     (case map_of (peers st) peer_addr of
        None \<Rightarrow> Inl KeyError
      | Some info \<Rightarrow>
          if status info \<noteq> new_status
          then Inr (say (StatusLine peer_addr new_status)
                      (st\<lparr>peers := dict_set peer_addr (info\<lparr>status := new_status\<rparr>) (peers st)\<rparr>))
          else Inr st)"

text \<open>Lines 397 to 404: the registry update for one gossiped peer.\<close>

definition registry_merge :: "string \<Rightarrow> string \<Rightarrow> int \<Rightarrow> node \<Rightarrow> node" where
  "registry_merge peer_id stat clk st =
     (case map_of (peers st) peer_id of
        Some info \<Rightarrow>
          if status info \<noteq> stat \<or> clock info \<noteq> clk
          then say (UpdateLine peer_id stat clk)
                 (st\<lparr>peers := dict_set peer_id \<lparr>status = stat, clock = clk\<rparr> (peers st)\<rparr>)
          else st
      | None \<Rightarrow>
          say (AddLine peer_id stat clk)
            (st\<lparr>peers := dict_set peer_id \<lparr>status = stat, clock = clk\<rparr> (peers st)\<rparr>))"

text \<open>
  Lines 387 to 406: one entry of a PEER\_LIST. An entry of exactly three fields raises
  \<^verbatim>\<open>IndexError\<close> at \<^verbatim>\<open>peer_parts[3]\<close>, a clock that is no integer raises
  \<^verbatim>\<open>ValueError\<close>; both are caught at line 405.
\<close>

definition merge_peer :: "string \<Rightarrow> node \<Rightarrow> node" where
  "merge_peer peer_info st =
     (let peer_parts = py_split_on (CHR '':'') peer_info in
      if length peer_parts \<ge> 3 then
        (let peer_id = peer_parts ! 0 @ '':'' @ peer_parts ! 1;
             stat = peer_parts ! 2
         in if length peer_parts < 4 then say (PeerErrorLine peer_info) st
            else
              (case py_int (peer_parts ! 3) of
                 None \<Rightarrow> say (PeerErrorLine peer_info) st
               | Some clk \<Rightarrow>
                   if peer_id = server_id st then st
                   else registry_merge peer_id stat clk st))
      else st)"

fun merge_peers :: "string list \<Rightarrow> node \<Rightarrow> node" where
  "merge_peers [] st = st"
| "merge_peers (peer_info # rest) st = merge_peers rest (merge_peer peer_info st)"

text \<open>
  Lines 377 to 416: a non-empty reply. Every exception inside is caught at line 415.
\<close>

definition get_peers_reply :: "string \<Rightarrow> string \<Rightarrow> node \<Rightarrow> node" where
  "get_peers_reply peer_addr reply st =
     (let parts = py_split (py_strip reply) in
      if length parts \<ge> 4 \<and> parts ! 2 = ''PEER_LIST'' then
        (case py_int (parts ! 3) of
           None \<Rightarrow> say (ProcessErrorLine peer_addr) st
         | Some total_n \<Rightarrow>
            (let new_peers = (if total_n > 0 then take (nat total_n) (drop 4 parts) else []);
                 st1 = (if int (length new_peers) \<noteq> total_n
                        then say (CountWarnLine (length new_peers) total_n) st else st);
                 st2 = merge_peers new_peers st1
             in case set_status peer_addr ''ONLINE'' st2 of
                  Inl _ \<Rightarrow> say (ProcessErrorLine peer_addr) st2
                | Inr st3 \<Rightarrow> st3))
      else say (InvalidReplyLine peer_addr reply) st)"

text \<open>
  Lines 372 to 421: the body of \<^verbatim>\<open>for peer_addr in current_peers\<close>. The result carries
  the exception that leaves the command, if any. \<^verbatim>\<open>send_message\<close> is called with its
  default \<^verbatim>\<open>max_retries=2\<close>.
\<close>

definition get_peers_peer ::
  "(nat \<Rightarrow> attempt) \<Rightarrow> string \<Rightarrow> node \<Rightarrow> py_error option \<times> node" where
  "get_peers_peer script peer_addr st =
     (let (msg_clock, st1) = update_clock st in
      case send_message script peer_addr ''GET_PEERS'' True 2 st1 of
        (Inl e, st2) \<Rightarrow> (Some e, st2)
      | (Inr (Reply reply), st2) \<Rightarrow>
          if reply \<noteq> [] then (None, get_peers_reply peer_addr reply st2)
          else (case set_status peer_addr ''OFFLINE'' st2 of
                  Inl e \<Rightarrow> (Some e, st2)
                | Inr st3 \<Rightarrow> (None, st3))
      | (Inr Sent, st2) \<Rightarrow> (None, say (ProcessErrorLine peer_addr) st2)
      | (Inr Failed, st2) \<Rightarrow>
          (case set_status peer_addr ''OFFLINE'' st2 of
             Inl e \<Rightarrow> (Some e, st2)
           | Inr st3 \<Rightarrow> (None, st3)))"

text \<open>The loop; \<open>net\<close> gives, for each peer, what its connection attempts do.\<close>

fun get_peers_loop ::
  "(string \<Rightarrow> nat \<Rightarrow> attempt) \<Rightarrow> string list \<Rightarrow> node \<Rightarrow> py_error option \<times> node" where
  "get_peers_loop net [] st = (None, st)"
| "get_peers_loop net (peer_addr # rest) st =
     (case get_peers_peer (net peer_addr) peer_addr st of
        (Some e, st') \<Rightarrow> (Some e, st')
      | (None, st') \<Rightarrow> get_peers_loop net rest st')"

definition command_get_peers ::
  "(string \<Rightarrow> nat \<Rightarrow> attempt) \<Rightarrow> node \<Rightarrow> py_error option \<times> node" where
  "command_get_peers net st = get_peers_loop net (map fst (peers st)) st"

section \<open>command\_search\_files (lines 166 to 252)\<close>

text \<open>An entry of \<^verbatim>\<open>arquivos_disponiveis\<close>: file name, size, source peer.\<close>

type_synonym found_file = "string \<times> int \<times> string"

text \<open>
  Lines 191 to 193. The list is appended to in place, so the entries added before an
  exception stay; the flag tells whether the loop ran to its end.
\<close>

fun collect_files :: "string \<Rightarrow> string list \<Rightarrow> found_file list \<Rightarrow> bool \<times> found_file list" where
  "collect_files peer_addr [] acc = (True, acc)"
| "collect_files peer_addr (arquivo_info # rest) acc =
     (case py_split_on (CHR '':'') arquivo_info of
        [nome, tamanho] \<Rightarrow>
          (case py_int tamanho of
             None \<Rightarrow> (False, acc)
           | Some n \<Rightarrow> collect_files peer_addr rest (acc @ [(nome, n, peer_addr)]))
      | _ \<Rightarrow> (False, acc))"

text \<open>Lines 185 to 203: a non-empty reply to LS.\<close>

definition ls_reply ::
  "string \<Rightarrow> string \<Rightarrow> found_file list \<Rightarrow> node \<Rightarrow> found_file list \<times> node" where
  "ls_reply peer_addr reply arquivos_disponiveis st =
     (let parts = py_split (py_strip reply) in
      if length parts \<ge> 4 \<and> parts ! 2 = ''LS_LIST'' then
        (case py_int (parts ! 3) of
           None \<Rightarrow> (arquivos_disponiveis, say (ProcessErrorLine peer_addr) st)
         | Some total_n \<Rightarrow>
            (let arquivos = (if total_n > 0 then take (nat total_n) (drop 4 parts) else [])
             in case collect_files peer_addr arquivos arquivos_disponiveis of
                  (False, found) \<Rightarrow> (found, say (ProcessErrorLine peer_addr) st)
                | (True, found) \<Rightarrow>
                    (case set_status peer_addr ''ONLINE'' st of
                       Inl _ \<Rightarrow> (found, say (ProcessErrorLine peer_addr) st)
                     | Inr st1 \<Rightarrow> (found, st1))))
      else (arquivos_disponiveis, say (InvalidReplyLine peer_addr reply) st))"

text \<open>Lines 181 to 208: the body of \<^verbatim>\<open>for peer_addr in online_peers\<close>.\<close>

definition search_files_peer ::
  "(nat \<Rightarrow> attempt) \<Rightarrow> string \<Rightarrow> found_file list \<Rightarrow> node
     \<Rightarrow> py_error option \<times> found_file list \<times> node" where
  "search_files_peer script peer_addr arquivos_disponiveis st =
     (case send_message script peer_addr ''LS'' True 2 st of
        (Inl e, st1) \<Rightarrow> (Some e, arquivos_disponiveis, st1)
      | (Inr (Reply reply), st1) \<Rightarrow>
          if reply \<noteq> []
          then (case ls_reply peer_addr reply arquivos_disponiveis st1 of
                  (found, st2) \<Rightarrow> (None, found, st2))
          else (case set_status peer_addr ''OFFLINE'' st1 of
                  Inl e \<Rightarrow> (Some e, arquivos_disponiveis, st1)
                | Inr st2 \<Rightarrow> (None, arquivos_disponiveis, st2))
      | (Inr Sent, st1) \<Rightarrow> (None, arquivos_disponiveis, say (ProcessErrorLine peer_addr) st1)
      | (Inr Failed, st1) \<Rightarrow>
          (case set_status peer_addr ''OFFLINE'' st1 of
             Inl e \<Rightarrow> (Some e, arquivos_disponiveis, st1)
           | Inr st2 \<Rightarrow> (None, arquivos_disponiveis, st2)))"

fun search_files_loop ::
  "(string \<Rightarrow> nat \<Rightarrow> attempt) \<Rightarrow> string list \<Rightarrow> found_file list \<Rightarrow> node
     \<Rightarrow> py_error option \<times> found_file list \<times> node" where
  "search_files_loop net [] arquivos_disponiveis st = (None, arquivos_disponiveis, st)"
| "search_files_loop net (peer_addr # rest) arquivos_disponiveis st =
     (case search_files_peer (net peer_addr) peer_addr arquivos_disponiveis st of
        (Some e, found, st') \<Rightarrow> (Some e, found, st')
      | (None, found, st') \<Rightarrow> search_files_loop net rest found st')"

text \<open>Lines 211 to 215: the table of the files found, numbered from 1.\<close>

fun list_found :: "nat \<Rightarrow> found_file list \<Rightarrow> node \<Rightarrow> node" where
  "list_found idx [] st = st"
| "list_found idx ((nome, tamanho, peer) # rest) st =
     list_found (idx + 1) rest (say (FoundLine idx nome tamanho peer) st)"

text \<open>
  Lines 230 to 247: a non-empty reply to DL. \<^verbatim>\<open>binascii.Error\<close> is a \<^verbatim>\<open>ValueError\<close>,
  so a payload that does not decode ends at the \<^verbatim>\<open>except ValueError\<close> of line 251.
\<close>

definition file_reply :: "string \<Rightarrow> string \<Rightarrow> node \<Rightarrow> node" where
  "file_reply peer_addr reply st =
     (let st1 = say (ReplyReceivedLine reply) st;
          parts = py_split (py_strip reply)
      in if length parts \<ge> 6 \<and> parts ! 2 = ''FILE'' then
           (let nome_arquivo = parts ! 3;
                conteudo_base64 = parts ! 5
            in if conteudo_base64 \<noteq> [] then
                 (case b64decode conteudo_base64 of
                    Inl _ \<Rightarrow> say InvalidNumberLine st1
                  | Inr conteudo_binario \<Rightarrow>
                     (let caminho_arquivo = path_join (shared_dir st) nome_arquivo
                      in say (DownloadDoneLine nome_arquivo)
                           (emit (FileWrite caminho_arquivo conteudo_binario)
                              (st1\<lparr>files :=
                                 dict_set caminho_arquivo conteudo_binario (files st1)\<rparr>))))
               else say (EmptyContentLine nome_arquivo) st1)
         else say (InvalidReplyLine peer_addr reply) st1)"

text \<open>
  Lines 217 to 252: the operator's choice \<open>escolha\<close> (the text typed) and the download.
  A \<^verbatim>\<open>ValueError\<close> from \<^verbatim>\<open>int\<close>, from the peer address or from the decoder is caught
  at line 251.
\<close>

definition download_file ::
  "string \<Rightarrow> (nat \<Rightarrow> attempt) \<Rightarrow> found_file list \<Rightarrow> node \<Rightarrow> py_error option \<times> node" where
  "download_file escolha script arquivos_disponiveis st =
     (case py_int (py_strip escolha) of
        None \<Rightarrow> (None, say InvalidNumberLine st)
      | Some n \<Rightarrow>
         (let idx = n - 1 in
          if idx < 0 \<or> idx \<ge> int (length arquivos_disponiveis)
          then (None, say InvalidOptionLine st)
          else
           (case arquivos_disponiveis ! nat idx of
              (nome_arquivo, _, peer_addr) \<Rightarrow>
               (case send_message script peer_addr (''DL '' @ nome_arquivo @ '' 0 0'') True 2 st of
                  (Inl e, st1) \<Rightarrow>
                    (if e = ValueError then (None, say InvalidNumberLine st1) else (Some e, st1))
                | (Inr (Reply reply), st1) \<Rightarrow>
                    if reply \<noteq> [] then (None, file_reply peer_addr reply st1)
                    else (None, say (DownloadFailedLine peer_addr) st1)
                | (Inr Sent, st1) \<Rightarrow> (Some AttributeError, say (ReplyReceivedLine ''True'') st1)
                | (Inr Failed, st1) \<Rightarrow> (None, say (DownloadFailedLine peer_addr) st1)))))"

text \<open>
  The whole command: \<open>net\<close> drives the LS round, \<open>escolha\<close> is the operator's input and
  \<open>dl_script\<close> drives the connection of the download.
\<close>

definition command_search_files ::
  "(string \<Rightarrow> nat \<Rightarrow> attempt) \<Rightarrow> string \<Rightarrow> (nat \<Rightarrow> attempt) \<Rightarrow> node
     \<Rightarrow> py_error option \<times> node" where
  "command_search_files net escolha dl_script st =
     (let online_peers = map fst (filter (\<lambda>p. status (snd p) = ''ONLINE'') (peers st)) in
      case search_files_loop net online_peers [] st of
        (Some e, found, st1) \<Rightarrow> (Some e, st1)
      | (None, found, st1) \<Rightarrow>
          download_file escolha dl_script found (list_found 1 found (say FoundHeaderLines st1)))"

section \<open>Reading a trace\<close>

text \<open>The texts handed to \<^verbatim>\<open>conn.sendall\<close>: the replies of the server side.\<close>

fun replies :: "event list \<Rightarrow> string list" where
  "replies [] = []"
| "replies (ConnSend m # tr) = m # replies tr"
| "replies (_ # tr) = replies tr"

text \<open>The texts handed to \<^verbatim>\<open>sock.sendall\<close>: the messages this node originates.\<close>

fun requests :: "event list \<Rightarrow> string list" where
  "requests [] = []"
| "requests (SockSend p m # tr) = m # requests tr"
| "requests (_ # tr) = requests tr"

text \<open>The number of connection attempts.\<close>

fun connects :: "event list \<Rightarrow> nat" where
  "connects [] = 0"
| "connects (Connect p # tr) = Suc (connects tr)"
| "connects (_ # tr) = connects tr"

text \<open>The files written.\<close>

fun writes :: "event list \<Rightarrow> (string \<times> byte list) list" where
  "writes [] = []"
| "writes (FileWrite f b # tr) = (f, b) # writes tr"
| "writes (_ # tr) = writes tr"

text \<open>The lines printed.\<close>

fun printed :: "event list \<Rightarrow> log_line list" where
  "printed [] = []"
| "printed (Print l # tr) = l # printed tr"
| "printed (_ # tr) = printed tr"

text \<open>
  The exception one attempt raises inside \<^verbatim>\<open>send_message\<close>, if any: a failure of
  \<^verbatim>\<open>recv\<close> is only met when a reply is awaited.
\<close>

fun raised :: "bool \<Rightarrow> attempt \<Rightarrow> io_error option" where
  "raised expect_reply (ConnectFails e) = Some e"
| "raised expect_reply (SendFails e) = Some e"
| "raised expect_reply (RecvFails e) = (if expect_reply then Some e else None)"
| "raised expect_reply (Answer r) = None"

text \<open>
  The two operations that add peers the node did not hear from itself, for sequences of
  them: a whole GET\_PEERS round and a load of the neighbour file. A load that exits
  leaves the registry as it was.
\<close>

datatype registry_op =
    RefreshPeers "string \<Rightarrow> nat \<Rightarrow> attempt"
  | LoadNeighbors "string list option"

fun run_op :: "node \<Rightarrow> registry_op \<Rightarrow> node" where
  "run_op st (RefreshPeers net) = snd (command_get_peers net st)"
| "run_op st (LoadNeighbors neighbors_file) =
     (case load_neighbors neighbors_file st of Inl _ \<Rightarrow> st | Inr st' \<Rightarrow> st')"

definition known :: "node \<Rightarrow> string set" where
  "known st = fst ` set (peers st)"

text \<open>A string that can stand as one field of a message: no whitespace in it.\<close>

definition no_space :: "string \<Rightarrow> bool" where
  "no_space s = list_all (\<lambda>c. \<not> is_space c) s"

section \<open>Two sample nodes\<close>

text \<open>
  A node that serves three files (one byte, no byte, all 256 byte values) and a node that
  knows it as a peer; \<open>demo_served\<close> is the reply the first gives to the second's DL
  request for a file, and \<open>demo_fetched\<close> the second node after it has chosen that file
  in \<^verbatim>\<open>command_search_files\<close> and received that reply.
\<close>

definition demo_server :: node where
  "demo_server = \<lparr>server_id = ''h:1'', shared_dir = ''/srv'', global_clock = 0, peers = [],
     files = [(''/srv/a.txt'', [0x41]), (''/srv/empty'', []), (''/srv/all'', map of_nat [0..<256])],
     trace = []\<rparr>"

definition demo_client :: node where
  "demo_client = \<lparr>server_id = ''q:2'', shared_dir = ''/s'', global_clock = 0,
     peers = [(''h:1'', \<lparr>status = ''ONLINE'', clock = 0\<rparr>)], files = [], trace = []\<rparr>"

definition demo_served :: "string \<Rightarrow> string" where
  "demo_served nome = hd (replies (trace (handle_client
      \<lparr>recv_data = Some (''q:2 1 DL '' @ nome @ '' 0 0'' @ [CHR 0x0A]), send_ok = True,
         listing = None\<rparr> demo_server)))"

definition demo_fetched :: "string \<Rightarrow> node" where
  "demo_fetched nome =
     snd (download_file ''1'' (\<lambda>i. Answer (demo_served nome)) [(nome, 1, ''h:1'')] demo_client)"

section \<open>Basic facts\<close>

lemma replies_append [simp]: "replies (xs @ ys) = replies xs @ replies ys"
  by (induction xs rule: replies.induct) simp_all

lemma requests_append [simp]: "requests (xs @ ys) = requests xs @ requests ys"
  by (induction xs rule: requests.induct) simp_all

lemma connects_append [simp]: "connects (xs @ ys) = connects xs + connects ys"
  by (induction xs rule: connects.induct) simp_all

lemma writes_append [simp]: "writes (xs @ ys) = writes xs @ writes ys"
  by (induction xs rule: writes.induct) simp_all

lemma printed_append [simp]: "printed (xs @ ys) = printed xs @ printed ys"
  by (induction xs rule: printed.induct) simp_all

lemma emit_fields [simp]:
  "server_id (emit e st) = server_id st" "shared_dir (emit e st) = shared_dir st"
  "global_clock (emit e st) = global_clock st" "peers (emit e st) = peers st"
  "files (emit e st) = files st" "trace (emit e st) = trace st @ [e]"
  by (simp_all add: emit_def)

lemma say_fields [simp]:
  "server_id (say l st) = server_id st" "shared_dir (say l st) = shared_dir st"
  "global_clock (say l st) = global_clock st" "peers (say l st) = peers st"
  "files (say l st) = files st" "trace (say l st) = trace st @ [Print l]"
  by (simp_all add: say_def)

lemma update_clock_fields [simp]:
  "fst (update_clock st) = global_clock st + 1"
  "server_id (snd (update_clock st)) = server_id st"
  "shared_dir (snd (update_clock st)) = shared_dir st"
  "global_clock (snd (update_clock st)) = global_clock st + 1"
  "peers (snd (update_clock st)) = peers st"
  "files (snd (update_clock st)) = files st"
  "trace (snd (update_clock st)) = trace st @ [Print (ClockLine (global_clock st + 1))]"
  by (simp_all add: update_clock_def Let_def)

lemma observe_fields [simp]:
  "server_id (observe r st) = server_id st" "shared_dir (observe r st) = shared_dir st"
  "global_clock (observe r st) = max (global_clock st) r + 1" "peers (observe r st) = peers st"
  "files (observe r st) = files st"
  "trace (observe r st) = trace st @ [Print (ClockLine (max (global_clock st) r + 1))]"
  by (simp_all add: observe_def Let_def)

lemma handle_client_decoded:
  assumes "recv_data c = Some raw" and "raw \<noteq> []" and "parts = py_split (py_strip raw)"
    and "3 \<le> length parts" and "py_int (parts ! 1) = Some r"
  shows "handle_client c st =
     emit ConnClose (dispatch c (parts ! 0) r (parts ! 2) parts
        (observe r (say (ReceivedLine (py_strip raw)) st)))"
  using assms by (simp add: handle_client_def handle_body_def Let_def)

lemma hello_clock: "global_clock (hello_handler p k st) = global_clock st"
  by (simp add: hello_handler_def split: option.splits)

lemma bye_clock: "global_clock (bye_handler p st) = global_clock st"
  by (simp add: bye_handler_def split: option.splits)

lemma get_peers_handler_clock:
  "global_clock (get_peers_handler c p st) = global_clock st + 1"
  by (simp add: get_peers_handler_def Let_def split_beta)

lemma ls_handler_clock:
  "global_clock (ls_handler c p st) = global_clock st \<or>
   global_clock (ls_handler c p st) = global_clock st + 1"
  by (simp add: ls_handler_def Let_def split_beta split: option.splits)

lemma dl_handler_clock:
  "global_clock (dl_handler c ps st) = global_clock st \<or>
   global_clock (dl_handler c ps st) = global_clock st + 1"
  by (simp add: dl_handler_def Let_def split_beta split: option.splits)

lemma dispatch_clock:
  "global_clock (dispatch c p k t ps st) = global_clock st \<or>
   global_clock (dispatch c p k t ps st) = global_clock st + 1"
  using ls_handler_clock[of c p st] dl_handler_clock[of c ps st]
  by (simp add: dispatch_def hello_clock bye_clock get_peers_handler_clock)

lemma map_of_dict_set: "map_of (dict_set k v d) = (map_of d)(k \<mapsto> v)"
  by (induction d) (auto simp: fun_eq_iff)

lemma keys_dict_set: "fst ` set (dict_set k v d) = insert k (fst ` set d)"
  by (simp add: dom_map_of_conv_image_fst[symmetric] map_of_dict_set)

lemma dict_set_absent: "map_of d k = None \<Longrightarrow> dict_set k v d = d @ [(k, v)]"
  by (induction d) (auto split: if_splits)

lemma dict_set_same: "map_of d k = Some v \<Longrightarrow> dict_set k v d = d"
  by (induction d) (auto split: if_splits)

lemma handle_client_short:
  assumes "recv_data c = Some raw" and "length (py_split (py_strip raw)) < 3"
  shows "handle_client c st = emit ConnClose (if raw = [] then st else say (ReceivedLine (py_strip raw)) st)"
  using assms by (simp add: handle_client_def handle_body_def Let_def)

lemma handle_client_bad_clock:
  assumes "recv_data c = Some raw" and "3 \<le> length (py_split (py_strip raw))"
    and "py_int (py_split (py_strip raw) ! 1) = None"
  shows "handle_client c st =
     emit ConnClose (say HandlerErrorLine (say (ReceivedLine (py_strip raw)) st))"
proof -
  have "raw \<noteq> []" using assms(2) by (auto simp: py_split_def py_strip_def)
  then show ?thesis using assms by (simp add: handle_client_def handle_body_def Let_def)
qed

lemma dispatch_unknown:
  assumes "t \<notin> set [''HELLO'', ''GET_PEERS'', ''BYE'', ''LS'', ''DL'']"
  shows "dispatch c p k t ps st = st"
  using assms by (simp add: dispatch_def)

lemma get_peers_handler_peers: "peers (get_peers_handler c p st) = peers st"
  by (simp add: get_peers_handler_def Let_def split_beta)

lemma get_peers_handler_replies:
  "replies (trace (get_peers_handler c p st)) = replies (trace st) @
     [server_id st @ '' '' @ show_int (global_clock st + 1) @ '' PEER_LIST ''
        @ show_nat (length (filter (\<lambda>e. fst e \<noteq> p) (peers st)))
        @ (if filter (\<lambda>e. fst e \<noteq> p) (peers st) = [] then []
           else '' '' @ py_join '' '' (map peer_entry (filter (\<lambda>e. fst e \<noteq> p) (peers st))))
        @ [CHR 0x0A]]"
  by (simp add: get_peers_handler_def Let_def split_beta)

lemma bye_offline_noop:
  "map_of (peers st) p = Some info \<Longrightarrow> status info = ''OFFLINE'' \<Longrightarrow> bye_handler p st = st"
  by (simp add: bye_handler_def)

lemma bye_keeps_clocks:
  "map_option clock (map_of (peers (bye_handler p st)) q) = map_option clock (map_of (peers st) q)"
  by (cases "map_of (peers st) p") (auto simp: bye_handler_def map_of_dict_set)

lemma hello_sets_record:
  "map_of (peers (hello_handler p k st)) p = Some \<lparr>status = ''ONLINE'', clock = k\<rparr>"
  by (cases "map_of (peers st) p") (auto simp: hello_handler_def map_of_dict_set)

lemma hello_on_fresh_record:
  assumes "map_of (peers st) p = Some \<lparr>status = ''ONLINE'', clock = k\<rparr>"
  shows "peers (hello_handler p k st) = peers st"
  using assms by (simp add: hello_handler_def dict_set_same)

lemma hello_trace:
  "trace (hello_handler p k st) = trace st @ [Print (UpdateLine p ''ONLINE'' k)]"
  by (cases "map_of (peers st) p") (auto simp: hello_handler_def)

lemma dict_set_keys: "map_of d k = Some v0 \<Longrightarrow> map fst (dict_set k v d) = map fst d"
  by (induction d) (auto split: if_splits)

lemma registry_merge_absent:
  "map_of (peers st) pid = None \<Longrightarrow>
   peers (registry_merge pid stat clk st) = peers st @ [(pid, \<lparr>status = stat, clock = clk\<rparr>)]"
  by (simp add: registry_merge_def dict_set_absent)

lemma registry_merge_differs:
  "map_of (peers st) pid = Some info \<Longrightarrow> status info \<noteq> stat \<or> clock info \<noteq> clk \<Longrightarrow>
   peers (registry_merge pid stat clk st) = dict_set pid \<lparr>status = stat, clock = clk\<rparr> (peers st)"
  by (auto simp: registry_merge_def)

lemma registry_merge_same:
  "map_of (peers st) pid = Some \<lparr>status = stat, clock = clk\<rparr> \<Longrightarrow>
   registry_merge pid stat clk st = st"
  by (simp add: registry_merge_def)

lemma registry_merge_others:
  "q \<noteq> pid \<Longrightarrow> map_of (peers (registry_merge pid stat clk st)) q = map_of (peers st) q"
  by (cases "map_of (peers st) pid") (auto simp: registry_merge_def map_of_dict_set)

lemma merge_peer_parsed:
  assumes "py_split_on (CHR '':'') peer_info = ip # port # stat # clk_s # rest"
    and "py_int clk_s = Some clk" and "ip @ '':'' @ port \<noteq> server_id st"
  shows "merge_peer peer_info st = registry_merge (ip @ '':'' @ port) stat clk st"
  using assms by (simp add: merge_peer_def Let_def)

lemma known_dict_set:
  "known (st\<lparr>peers := dict_set k v (peers st)\<rparr>) = insert k (known st)"
  by (simp add: known_def keys_dict_set)

lemma known_emit [simp]: "known (emit e st) = known st" "known (say l st) = known st"
  by (simp_all add: known_def)

lemma known_present: "map_of (peers st) k = Some v \<Longrightarrow> k \<in> known st"
  by (auto simp: known_def dest: map_of_SomeD intro: rev_image_eqI)

lemma set_status_frame:
  assumes "set_status p s st = Inr st'"
  shows "server_id st' = server_id st \<and> known st' = known st"
  using assms known_present[of st p]
  by (auto simp: set_status_def known_dict_set split: option.splits if_splits)

lemma registry_merge_id [simp]: "server_id (registry_merge pid stat clk st) = server_id st"
  by (simp add: registry_merge_def split: option.splits)

lemma registry_merge_known:
  "known (registry_merge pid stat clk st) = insert pid (known st)"
  using known_present[of st pid]
  by (auto simp: registry_merge_def known_dict_set split: option.splits)

lemma merge_peer_id [simp]: "server_id (merge_peer e st) = server_id st"
  by (simp add: merge_peer_def Let_def split: option.splits)

lemma merge_peer_no_self:
  "server_id st \<notin> known st \<Longrightarrow> server_id st \<notin> known (merge_peer e st)"
  by (auto simp: merge_peer_def Let_def registry_merge_known split: option.splits)

lemma merge_peers_no_self:
  "server_id st \<notin> known st \<Longrightarrow>
   server_id (merge_peers es st) = server_id st \<and> server_id st \<notin> known (merge_peers es st)"
proof (induction es arbitrary: st)
  case Nil
  then show ?case by simp
next
  case (Cons e es)
  have "server_id (merge_peer e st) \<notin> known (merge_peer e st)"
    using merge_peer_no_self[OF Cons.prems] by simp
  from Cons.IH[OF this] show ?case by simp
qed

lemma get_peers_reply_no_self:
  assumes "server_id st \<notin> known st"
  shows "server_id (get_peers_reply p reply st) = server_id st
       \<and> server_id st \<notin> known (get_peers_reply p reply st)"
proof -
  have step: "server_id (merge_peers es st1) = server_id st \<and>
        server_id st \<notin> known (merge_peers es st1)"
    if "server_id st1 = server_id st" "known st1 = known st" for es st1
    using merge_peers_no_self[of st1 es] that assms by simp
  show ?thesis
    using assms
    by (auto simp: get_peers_reply_def Let_def step
        split: option.splits sum.splits dest!: set_status_frame)
qed

lemma write_request_fields [simp]:
  "server_id (write_request p m st) = server_id st"
  "shared_dir (write_request p m st) = shared_dir st"
  "global_clock (write_request p m st) = global_clock st + 1"
  "peers (write_request p m st) = peers st"
  "files (write_request p m st) = files st"
  by (simp_all add: write_request_def Let_def split_beta)

lemma write_request_trace:
  "trace (write_request p m st) = trace st @
     [Print (ClockLine (global_clock st + 1)),
      Print (ForwardLine (py_strip (server_id st @ '' '' @ show_int (global_clock st + 1)
               @ '' '' @ py_strip m @ [CHR 0x0A])) p),
      SockSend p (server_id st @ '' '' @ show_int (global_clock st + 1)
               @ '' '' @ py_strip m @ [CHR 0x0A])]"
  by (simp add: write_request_def Let_def split_beta)

lemma on_error_frame:
  "server_id (snd (on_error p a mr e st)) = server_id st \<and>
   peers (snd (on_error p a mr e st)) = peers st \<and>
   files (snd (on_error p a mr e st)) = files st \<and>
   global_clock (snd (on_error p a mr e st)) = global_clock st"
  by (cases e) (simp_all add: on_error_def)

lemma try_send_frame:
  "server_id (snd (try_send a p m er mr i st)) = server_id st \<and>
   peers (snd (try_send a p m er mr i st)) = peers st \<and>
   files (snd (try_send a p m er mr i st)) = files st"
  by (cases a) (simp_all add: try_send_def Let_def on_error_frame)

lemma send_attempts_frame:
  "server_id (snd (send_attempts sc p m er mr idxs st)) = server_id st \<and>
   peers (snd (send_attempts sc p m er mr idxs st)) = peers st \<and>
   files (snd (send_attempts sc p m er mr idxs st)) = files st"
proof (induction idxs arbitrary: st)
  case Nil
  then show ?case by simp
next
  case (Cons i idxs)
  obtain r st' where t: "try_send (sc i) p m er mr i st = (r, st')"
    by (cases "try_send (sc i) p m er mr i st")
  have f: "server_id st' = server_id st \<and> peers st' = peers st \<and> files st' = files st"
    using try_send_frame[of "sc i" p m er mr i st] t by simp
  show ?case
    using Cons.IH[of st'] f by (cases r) (simp_all add: t)
qed

lemma send_message_frame:
  "server_id (snd (send_message sc p m er mr st)) = server_id st \<and>
   peers (snd (send_message sc p m er mr st)) = peers st \<and>
   files (snd (send_message sc p m er mr st)) = files st"
  using send_attempts_frame[of sc p m er mr "[0..<nat mr]" st]
  by (simp add: send_message_def split_beta split: option.splits)

lemma known_cong: "peers st' = peers st \<Longrightarrow> known st' = known st"
  by (simp add: known_def)

lemma get_peers_peer_no_self:
  assumes "server_id st \<notin> known st"
  shows "server_id (snd (get_peers_peer sc p st)) = server_id st
       \<and> server_id st \<notin> known (snd (get_peers_peer sc p st))"
proof -
  define st1 where "st1 = snd (update_clock st)"
  obtain r st2 where sm: "send_message sc p ''GET_PEERS'' True 2 st1 = (r, st2)"
    by (cases "send_message sc p ''GET_PEERS'' True 2 st1")
  have f2: "server_id st2 = server_id st" "known st2 = known st"
    using send_message_frame[of sc p "''GET_PEERS''" True 2 st1] sm
    by (simp_all add: st1_def known_def)
  then have inv2: "server_id st2 \<notin> known st2" using assms by simp
  have run: "get_peers_peer sc p st =
      (case (r, st2) of
        (Inl e, st2) \<Rightarrow> (Some e, st2)
      | (Inr (Reply reply), st2) \<Rightarrow>
          if reply \<noteq> [] then (None, get_peers_reply p reply st2)
          else (case set_status p ''OFFLINE'' st2 of
                  Inl e \<Rightarrow> (Some e, st2)
                | Inr st3 \<Rightarrow> (None, st3))
      | (Inr Sent, st2) \<Rightarrow> (None, say (ProcessErrorLine p) st2)
      | (Inr Failed, st2) \<Rightarrow>
          (case set_status p ''OFFLINE'' st2 of
             Inl e \<Rightarrow> (Some e, st2)
           | Inr st3 \<Rightarrow> (None, st3)))"
  proof -
    have uc: "update_clock st = (global_clock st + 1, st1)"
      by (simp add: st1_def update_clock_def Let_def)
    show ?thesis by (simp add: get_peers_peer_def uc sm)
  qed
  show ?thesis
    unfolding run using f2 inv2 get_peers_reply_no_self[OF inv2, of p]
    by (auto split: sum.splits send_result.splits dest!: set_status_frame)
qed

lemma get_peers_loop_no_self:
  "server_id st \<notin> known st \<Longrightarrow>
   server_id (snd (get_peers_loop net ps st)) = server_id st
   \<and> server_id st \<notin> known (snd (get_peers_loop net ps st))"
proof (induction ps arbitrary: st)
  case Nil
  then show ?case by simp
next
  case (Cons p ps)
  obtain e st' where g: "get_peers_peer (net p) p st = (e, st')"
    by (cases "get_peers_peer (net p) p st")
  have f: "server_id st' = server_id st" "server_id st \<notin> known st'"
    using get_peers_peer_no_self[OF Cons.prems, of "net p" p] g by simp_all
  then have "server_id st' \<notin> known st'" by simp
  from Cons.IH[OF this] show ?case
    using f by (cases e) (simp_all add: g)
qed

lemma load_line_no_self:
  "server_id (load_line raw st) = server_id st \<and>
   (server_id st \<notin> known st \<longrightarrow> server_id st \<notin> known (load_line raw st))"
  by (auto simp: load_line_def Let_def known_dict_set split: option.splits)

lemma load_lines_no_self:
  "server_id st \<notin> known st \<Longrightarrow>
   server_id (load_lines ls st) = server_id st \<and> server_id st \<notin> known (load_lines ls st)"
proof (induction ls arbitrary: st)
  case Nil
  then show ?case by simp
next
  case (Cons raw ls)
  have "server_id (load_line raw st) \<notin> known (load_line raw st)"
    using load_line_no_self[of raw st] Cons.prems by simp
  from Cons.IH[OF this] show ?case
    using load_line_no_self[of raw st] by simp
qed

lemma run_op_no_self:
  "server_id st \<notin> known st \<Longrightarrow>
   server_id (run_op st op) = server_id st \<and> server_id st \<notin> known (run_op st op)"
proof (cases op)
  case (RefreshPeers net)
  assume "server_id st \<notin> known st"
  then show ?thesis
    using get_peers_loop_no_self[of st net "map fst (peers st)"]
    by (simp add: RefreshPeers command_get_peers_def)
next
  case (LoadNeighbors f)
  assume "server_id st \<notin> known st"
  then show ?thesis
    using load_lines_no_self[of st]
    by (cases f) (simp_all add: LoadNeighbors load_neighbors_def)
qed

lemma merge_peer_self:
  assumes "py_split_on (CHR '':'') e = ip # port # stat # clk_s # rest"
    and "ip @ '':'' @ port = server_id st"
  shows "peers (merge_peer e st) = peers st"
  using assms by (simp add: merge_peer_def Let_def split: option.splits)

lemma load_line_self: "py_strip raw = server_id st \<Longrightarrow> load_line raw st = st"
  by (simp add: load_line_def Let_def)

lemma foldl_run_op_no_self:
  "server_id st \<notin> known st \<Longrightarrow>
   server_id (foldl run_op st ops) = server_id st
       \<and> server_id st \<notin> known (foldl run_op st ops)"
proof (induction ops arbitrary: st)
  case Nil
  then show ?case by simp
next
  case (Cons op ops)
  have "server_id (run_op st op) \<notin> known (run_op st op)"
    using run_op_no_self[OF Cons.prems, of op] by simp
  from Cons.IH[OF this] show ?case
    using run_op_no_self[OF Cons.prems, of op] by simp
qed

lemma on_error_step:
  "fst (on_error p i mr e st) = (if e = Refused then Done Failed else Retry)"
  by (cases e) (simp_all add: on_error_def)

lemma on_error_trace:
  "connects (trace (snd (on_error p i mr e st))) = connects (trace st) \<and>
   requests (trace (snd (on_error p i mr e st))) = requests (trace st)"
  by (cases e) (simp_all add: on_error_def)

lemma write_request_connects [simp]:
  "connects (trace (write_request p m st)) = connects (trace st)"
  by (simp add: write_request_trace)

lemma try_send_connects:
  "connects (trace (snd (try_send a p m er mr i st))) = connects (trace st) + 1"
  by (cases a) (simp_all add: try_send_def Let_def on_error_trace)

lemma try_send_raised:
  "raised er a = Some e \<Longrightarrow>
   fst (try_send a p m er mr i st) = (if e = Refused then Done Failed else Retry)"
  by (cases a) (simp_all add: try_send_def Let_def on_error_step split: if_splits)

lemma try_send_answer:
  "fst (try_send (Answer r) p m True mr i st) = Done (Reply r)"
  by (simp add: try_send_def Let_def)

text \<open>Attempts that fail with a timeout or another error are passed over one by one.\<close>

lemma send_attempts_skip:
  assumes "\<forall>i \<in> set pre. raised er (sc i) = Some Timeout \<or> raised er (sc i) = Some OtherIO"
  shows "\<exists>st'. send_attempts sc p m er mr (pre @ post) st = send_attempts sc p m er mr post st'
            \<and> connects (trace st') = connects (trace st) + length pre"
  using assms
proof (induction pre arbitrary: st)
  case Nil
  show ?case by (rule exI[of _ st]) simp
next
  case (Cons i pre)
  obtain r st1 where t: "try_send (sc i) p m er mr i st = (r, st1)"
    by (cases "try_send (sc i) p m er mr i st")
  have "raised er (sc i) = Some Timeout \<or> raised er (sc i) = Some OtherIO"
    using Cons.prems by simp
  then have r: "r = Retry"
    using try_send_raised[of er "sc i" _ p m mr i st] t by auto
  have c1: "connects (trace st1) = connects (trace st) + 1"
    using try_send_connects[of "sc i" p m er mr i st] t by simp
  obtain st' where
    "send_attempts sc p m er mr (pre @ post) st1 = send_attempts sc p m er mr post st'"
    "connects (trace st') = connects (trace st1) + length pre"
    using Cons.IH[of st1] Cons.prems by auto
  then show ?case
    using c1 by (auto simp: t r)
qed

lemma send_attempts_exhausted:
  assumes "\<forall>i \<in> set idxs. raised er (sc i) = Some Timeout \<or> raised er (sc i) = Some OtherIO"
  shows "fst (send_attempts sc p m er mr idxs st) = Failed
       \<and> connects (trace (snd (send_attempts sc p m er mr idxs st)))
           = connects (trace st) + length idxs"
  using send_attempts_skip[OF assms, of p m mr "[]" st] by auto

lemma send_attempts_refused:
  assumes "\<forall>i \<in> set pre. raised er (sc i) = Some Timeout \<or> raised er (sc i) = Some OtherIO"
    and "raised er (sc k) = Some Refused"
  shows "fst (send_attempts sc p m er mr (pre @ k # post) st) = Failed
       \<and> connects (trace (snd (send_attempts sc p m er mr (pre @ k # post) st)))
           = connects (trace st) + length pre + 1"
proof -
  obtain st' where s:
    "send_attempts sc p m er mr (pre @ k # post) st = send_attempts sc p m er mr (k # post) st'"
    "connects (trace st') = connects (trace st) + length pre"
    using send_attempts_skip[OF assms(1), of p m mr "k # post" st] by auto
  obtain r st1 where t: "try_send (sc k) p m er mr k st' = (r, st1)"
    by (cases "try_send (sc k) p m er mr k st'")
  have r: "r = Done Failed"
    using try_send_raised[OF assms(2), of p m mr k st'] t by simp
  have "connects (trace st1) = connects (trace st') + 1"
    using try_send_connects[of "sc k" p m er mr k st'] t by simp
  then show ?thesis using s by (simp add: t r)
qed

lemma send_attempts_answered:
  assumes "\<forall>i \<in> set pre. raised True (sc i) = Some Timeout \<or> raised True (sc i) = Some OtherIO"
    and "sc k = Answer reply"
  shows "fst (send_attempts sc p m True mr (pre @ k # post) st) = Reply reply
       \<and> connects (trace (snd (send_attempts sc p m True mr (pre @ k # post) st)))
           = connects (trace st) + length pre + 1"
proof -
  obtain st' where s:
    "send_attempts sc p m True mr (pre @ k # post) st = send_attempts sc p m True mr (k # post) st'"
    "connects (trace st') = connects (trace st) + length pre"
    using send_attempts_skip[OF assms(1), of p m mr "k # post" st] by auto
  obtain r st1 where t: "try_send (sc k) p m True mr k st' = (r, st1)"
    by (cases "try_send (sc k) p m True mr k st'")
  have r: "r = Done (Reply reply)"
    using try_send_answer[of reply p m mr k st'] t assms(2) by simp
  have "connects (trace st1) = connects (trace st') + 1"
    using try_send_connects[of "sc k" p m True mr k st'] t by simp
  then show ?thesis using s by (simp add: t r)
qed

lemma range_split: "k < n \<Longrightarrow> [0..<n] = [0..<k] @ k # [Suc k..<n]"
  by (metis le_add_diff_inverse less_imp_le_nat upt_add_eq_append upt_conv_Cons zero_le)

lemma send_message_attempts:
  "parse_addr p \<noteq> None \<Longrightarrow>
   send_message sc p m er mr st =
     (Inr (fst (send_attempts sc p m er mr [0..<nat mr] st)),
      snd (send_attempts sc p m er mr [0..<nat mr] st))"
  by (auto simp: send_message_def split_beta)

lemma addr_ok: "parse_addr ''h:1'' \<noteq> None"
  by (simp add: parse_addr_def py_split_on_def py_int_def py_strip_def is_space_def is_digit_def
      digit_val_def ord_def)

lemma send_message_first_answer:
  assumes "parse_addr p \<noteq> None" and "sc 0 = Answer reply"
  shows "send_message sc p m True 2 st = (Inr (Reply reply), write_request p m (emit (Connect p) st))"
proof -
  have "[0..<nat 2] = 0 # [Suc 0..<nat 2]"
    by (simp add: upt_conv_Cons)
  then show ?thesis
    using assms by (auto simp: send_message_def try_send_def Let_def)
qed

lemma set_status_present:
  assumes "map_of (peers st) p = Some info"
  shows "\<exists>st'. set_status p s st = Inr st'
           \<and> map_of (peers st') p = Some (info\<lparr>status := s\<rparr>)
           \<and> global_clock st' = global_clock st
           \<and> connects (trace st') = connects (trace st)
           \<and> requests (trace st') = requests (trace st)"
  using assms by (auto simp: set_status_def map_of_dict_set)

lemma split_ws_spaces:
  "list_all is_space ws \<Longrightarrow> split_ws cur ws = (if cur = [] then [] else [cur])"
proof (induction ws arbitrary: cur)
  case Nil
  then show ?case by simp
next
  case (Cons c ws)
  then have "split_ws [] ws = []" by simp
  then show ?case using Cons.prems by simp
qed

lemma split_ws_trailing:
  "list_all is_space ws \<Longrightarrow> split_ws cur (s @ ws) = split_ws cur s"
  by (induction s arbitrary: cur) (simp_all add: split_ws_spaces)

lemma split_ws_leading: "split_ws [] (dropWhile is_space s) = split_ws [] s"
  by (induction s) simp_all

lemma strip_decomp:
  "\<exists>ws. list_all is_space ws \<and> dropWhile is_space s = py_strip s @ ws"
proof -
  let ?t = "dropWhile is_space s"
  have "rev ?t = takeWhile is_space (rev ?t) @ dropWhile is_space (rev ?t)"
    by simp
  then have "rev (rev ?t) = rev (takeWhile is_space (rev ?t) @ dropWhile is_space (rev ?t))"
    by (rule arg_cong)
  then have "?t = py_strip s @ rev (takeWhile is_space (rev ?t))"
    unfolding rev_append rev_rev_ident py_strip_def .
  moreover have "list_all is_space (rev (takeWhile is_space (rev ?t)))"
    by (simp add: list_all_iff) (meson set_takeWhileD)
  ultimately show ?thesis by blast
qed

lemma py_split_strip: "py_split (py_strip s) = py_split s"
proof -
  obtain ws where ws: "list_all is_space ws" "dropWhile is_space s = py_strip s @ ws"
    using strip_decomp by blast
  have "split_ws [] (py_strip s) = split_ws [] (py_strip s @ ws)"
    using split_ws_trailing[OF ws(1)] by simp
  also have "\<dots> = split_ws [] s"
    using ws(2) split_ws_leading[of s] by simp
  finally show ?thesis by (simp add: py_split_def)
qed

lemma split_ws_token:
  assumes "no_space tok" and "is_space c" and "cur @ tok \<noteq> []"
  shows "split_ws cur (tok @ c # rest) = (cur @ tok) # split_ws [] rest"
  using assms
proof (induction tok arbitrary: cur)
  case Nil
  then show ?case by simp
next
  case (Cons a tok)
  then show ?case by (simp add: no_space_def)
qed

lemma digit_char_no_space: "d < 10 \<Longrightarrow> \<not> is_space (digit_char d)"
proof -
  assume "d < 10"
  then have "d \<in> set [0..<10]" by simp
  moreover have "list_all (\<lambda>d. \<not> is_space (digit_char d)) [0..<10]"
    by code_simp
  ultimately show ?thesis
    unfolding list_all_iff by blast
qed

lemma show_nat_token: "show_nat n \<noteq> [] \<and> no_space (show_nat n)"
proof (induction n rule: show_nat.induct)
  case (1 n)
  show ?case
  proof (cases "n < 10")
    case True
    then show ?thesis
      using digit_char_no_space[of n] by (simp add: show_nat.simps[of n] no_space_def)
  next
    case False
    then show ?thesis
      using 1 digit_char_no_space[of "n mod 10"]
      by (simp add: show_nat.simps[of n] no_space_def)
  qed
qed

lemma show_int_token: "show_int i \<noteq> [] \<and> no_space (show_int i)"
  using show_nat_token[of "nat i"] show_nat_token[of "nat (- i)"]
  by (simp add: show_int_def no_space_def is_space_def)

lemma served_parts:
  assumes "sid \<noteq> []" and "no_space sid" and "clk \<noteq> []" and "no_space clk"
    and "nome \<noteq> []" and "no_space nome"
  shows "py_split (py_strip (sid @ '' '' @ clk @ '' FILE '' @ nome @ '' 0 0 '' @ rest))
           = sid # clk # ''FILE'' # nome # ''0'' # ''0'' # py_split rest"
proof -
  have sp: "is_space (CHR '' '')" by (simp add: is_space_def)
  have lit: "no_space ''FILE''" "no_space ''0''" by (simp_all add: no_space_def is_space_def)
  have tok: "split_ws [] (t @ CHR '' '' # r) = t # split_ws [] r" if "t \<noteq> []" "no_space t" for t r
    using split_ws_token[OF that(2) sp, of "[]" r] that(1) by simp
  have "split_ws [] (sid @ '' '' @ clk @ '' FILE '' @ nome @ '' 0 0 '' @ rest)
      = split_ws [] (sid @ CHR '' '' # (clk @ CHR '' '' # (''FILE'' @ CHR '' '' #
          (nome @ CHR '' '' # (''0'' @ CHR '' '' # (''0'' @ CHR '' '' # rest))))))"
    by simp
  also have "\<dots> = sid # clk # ''FILE'' # nome # ''0'' # ''0'' # split_ws [] rest"
    using assms lit by (simp only: tok list.distinct not_False_eq_True)
  finally have "split_ws [] (sid @ '' '' @ clk @ '' FILE '' @ nome @ '' 0 0 '' @ rest)
      = sid # clk # ''FILE'' # nome # ''0'' # ''0'' # split_ws [] rest" .
  then show ?thesis
    unfolding py_split_strip unfolding py_split_def .
qed

lemma b64decode_zero: "b64decode ''0'' = Inl ValueError"
  by (simp add: b64decode_def dec6_def ord_def)

lemma file_reply_served:
  assumes "sid \<noteq> []" and "no_space sid" and "nome \<noteq> []" and "no_space nome"
    and "reply = sid @ '' '' @ show_int now @ '' FILE '' @ nome @ '' 0 0 '' @ payload"
  shows "py_split (py_strip reply) ! 5 = ''0''
       \<and> file_reply peer_addr reply st = say InvalidNumberLine (say (ReplyReceivedLine reply) st)"
proof -
  have parts: "py_split (py_strip reply)
      = sid # show_int now # ''FILE'' # nome # ''0'' # ''0'' # py_split payload"
    unfolding assms(5)
    using served_parts[OF assms(1,2) _ _ assms(3,4), of "show_int now" payload]
      show_int_token[of now] by simp
  show ?thesis
    by (simp add: file_reply_def Let_def parts b64decode_zero)
qed

lemma dl_handler_reply:
  assumes "4 \<le> length parts"
    and "map_of (files st) (path_join (shared_dir st) (parts ! 3)) = Some bs"
  shows "replies (trace (dl_handler c parts st)) = replies (trace st) @
      [server_id st @ '' '' @ show_int (global_clock st + 1) @ '' FILE '' @ parts ! 3
         @ '' 0 0 '' @ b64encode bs @ [CHR 0x0A]]"
  using assms by (simp add: dl_handler_def Let_def split_beta)

lemma set_status_quiet:
  "set_status p s st = Inr st' \<Longrightarrow>
   global_clock st' = global_clock st \<and> requests (trace st') = requests (trace st)"
  by (auto simp: set_status_def split: option.splits if_splits)

lemma registry_merge_quiet:
  "global_clock (registry_merge pid stat clk st) = global_clock st \<and>
   requests (trace (registry_merge pid stat clk st)) = requests (trace st)"
  by (simp add: registry_merge_def split: option.splits)

lemma merge_peer_quiet:
  "global_clock (merge_peer e st) = global_clock st \<and>
   requests (trace (merge_peer e st)) = requests (trace st)"
  by (simp add: merge_peer_def Let_def registry_merge_quiet split: option.splits)

lemma merge_peers_quiet:
  "global_clock (merge_peers es st) = global_clock st \<and>
   requests (trace (merge_peers es st)) = requests (trace st)"
  by (induction es arbitrary: st) (simp_all add: merge_peer_quiet)

lemma get_peers_reply_quiet:
  "global_clock (get_peers_reply p reply st) = global_clock st \<and>
   requests (trace (get_peers_reply p reply st)) = requests (trace st)"
  by (auto simp: get_peers_reply_def Let_def merge_peers_quiet
      split: option.splits sum.splits dest!: set_status_quiet)

lemma ls_reply_quiet:
  "global_clock (snd (ls_reply p reply found st)) = global_clock st \<and>
   requests (trace (snd (ls_reply p reply found st))) = requests (trace st)"
  by (auto simp: ls_reply_def Let_def
      split: option.splits sum.splits prod.splits bool.splits dest!: set_status_quiet)

lemma strip_literals: "py_strip ''GET_PEERS'' = ''GET_PEERS''" "py_strip ''LS'' = ''LS''"
  by (simp_all add: py_strip_def is_space_def)

text \<open>The codec by itself: decoding an encoded byte list gives the list back.\<close>

lemma alphabet_table:
  "n < 64 \<Longrightarrow> dec6 (b64_alphabet ! n) = Some (of_nat n) \<and> b64_alphabet ! n \<noteq> CHR ''=''"
proof -
  assume "n < 64"
  then have "n \<in> set [0..<64]" by simp
  moreover have "list_all (\<lambda>n. dec6 (b64_alphabet ! n) = Some (of_nat n)
      \<and> b64_alphabet ! n \<noteq> CHR ''='') [0..<64]"
    by code_simp
  ultimately show ?thesis
    unfolding list_all_iff by blast
qed

lemma six_bits: "unat (w AND (63 :: byte)) < 64"
proof -
  have "w AND 63 \<le> 63" by (rule word_and_le1)
  then show ?thesis by (simp add: word_le_nat_alt)
qed

lemma dec6_enc6: "dec6 (enc6 w) = Some (w AND 63)" and enc6_not_pad: "enc6 w \<noteq> CHR ''=''"
  using alphabet_table[OF six_bits[of w]] by (simp_all add: enc6_def)

lemma masks: "(63::byte) = mask 6" "(3::byte) = mask 2" "(15::byte) = mask 4"
  by (simp_all add: mask_eq_exp_minus_1)

lemma shifts: "Suc (Suc (n - 2)) = max 2 n" "4 + (n - 4) = max 4 n" "6 + (n - 6) = max 6 n"
  by (auto simp: max_def)

lemma bits_a: "push_bit 2 (drop_bit 2 a AND 63) OR drop_bit 4 ((push_bit 4 (a AND 3) OR drop_bit 4 b) AND 63) = (a :: byte)"
  unfolding masks
  by (rule bit_word_eqI) (auto simp: bit_simps shifts max_def)

lemma bits_b: "push_bit 4 (((push_bit 4 (a AND 3) OR drop_bit 4 b) AND 63) AND 15)
    OR drop_bit 2 ((push_bit 2 (b AND 15) OR drop_bit 6 c) AND 63) = (b :: byte)"
  unfolding masks
  by (rule bit_word_eqI) (auto simp: bit_simps shifts max_def)

lemma bits_c: "push_bit 6 (((push_bit 2 (b AND 15) OR drop_bit 6 c) AND 63) AND 3) OR ((c AND 63) AND 63) = (c :: byte)"
  unfolding masks
  by (rule bit_word_eqI) (auto simp: bit_simps shifts max_def)

lemma a2b_quad:
  assumes "dec6 c1 = Some v1" and "c1 \<noteq> CHR ''=''" and "dec6 c2 = Some v2" and "c2 \<noteq> CHR ''=''"
    and "dec6 c3 = Some v3" and "c3 \<noteq> CHR ''=''" and "dec6 c4 = Some v4" and "c4 \<noteq> CHR ''=''"
    and "a2b_base64 0 0 0 cs = Inr r"
  shows "a2b_base64 0 l p (c1 # c2 # c3 # c4 # cs) =
     Inr ((push_bit 2 v1 OR drop_bit 4 v2) # (push_bit 4 (v2 AND 15) OR drop_bit 2 v3)
            # (push_bit 6 (v3 AND 3) OR v4) # r)"
  using assms by simp

lemma a2b_two:
  assumes "dec6 c1 = Some v1" and "c1 \<noteq> CHR ''=''" and "dec6 c2 = Some v2" and "c2 \<noteq> CHR ''=''"
  shows "a2b_base64 0 l p [c1, c2, CHR ''='', CHR ''=''] = Inr [push_bit 2 v1 OR drop_bit 4 v2]"
  using assms by simp

lemma a2b_three:
  assumes "dec6 c1 = Some v1" and "c1 \<noteq> CHR ''=''" and "dec6 c2 = Some v2" and "c2 \<noteq> CHR ''=''"
    and "dec6 c3 = Some v3" and "c3 \<noteq> CHR ''=''"
  shows "a2b_base64 0 l p [c1, c2, c3, CHR ''=''] =
     Inr [push_bit 2 v1 OR drop_bit 4 v2, push_bit 4 (v2 AND 15) OR drop_bit 2 v3]"
  using assms by simp

lemma bits_a0: "push_bit 2 (drop_bit 2 a AND 63) OR drop_bit 4 (push_bit 4 (a AND 3) AND 63) = (a :: byte)"
  using bits_a[of a 0] by simp

lemma bits_b0: "push_bit 4 (((push_bit 4 (a AND 3) OR drop_bit 4 b) AND 63) AND 15)
    OR drop_bit 2 (push_bit 2 (b AND 15) AND 63) = (b :: byte)"
  using bits_b[of a b 0] by simp

lemma b64_roundtrip: "b64decode (b64encode bs) = Inr bs"
  unfolding b64decode_def
proof (induction bs rule: b64encode.induct)
  case 1
  show ?case by simp
next
  case (2 a)
  have "a2b_base64 0 0 0 (b64encode [a]) =
      Inr [push_bit 2 (drop_bit 2 a AND 63) OR drop_bit 4 (push_bit 4 (a AND 3) AND 63)]"
    unfolding b64encode.simps
    by (rule a2b_two[OF dec6_enc6 enc6_not_pad dec6_enc6 enc6_not_pad])
  then show ?case unfolding bits_a0 .
next
  case (3 a b)
  have "a2b_base64 0 0 0 (b64encode [a, b]) =
      Inr [push_bit 2 (drop_bit 2 a AND 63) OR drop_bit 4 ((push_bit 4 (a AND 3) OR drop_bit 4 b) AND 63),
           push_bit 4 (((push_bit 4 (a AND 3) OR drop_bit 4 b) AND 63) AND 15)
             OR drop_bit 2 (push_bit 2 (b AND 15) AND 63)]"
    unfolding b64encode.simps
    by (rule a2b_three[OF dec6_enc6 enc6_not_pad dec6_enc6 enc6_not_pad dec6_enc6 enc6_not_pad])
  then show ?case unfolding bits_a bits_b0 .
next
  case (4 a b c rest)
  have "a2b_base64 0 0 0 (b64encode (a # b # c # rest)) =
      Inr ((push_bit 2 (drop_bit 2 a AND 63) OR drop_bit 4 ((push_bit 4 (a AND 3) OR drop_bit 4 b) AND 63))
         # (push_bit 4 (((push_bit 4 (a AND 3) OR drop_bit 4 b) AND 63) AND 15)
             OR drop_bit 2 ((push_bit 2 (b AND 15) OR drop_bit 6 c) AND 63))
         # (push_bit 6 (((push_bit 2 (b AND 15) OR drop_bit 6 c) AND 63) AND 3) OR ((c AND 63) AND 63))
         # rest)"
    unfolding b64encode.simps append_Cons append_Nil
    by (rule a2b_quad[OF dec6_enc6 enc6_not_pad dec6_enc6 enc6_not_pad dec6_enc6 enc6_not_pad
          dec6_enc6 enc6_not_pad 4])
  then show ?case unfolding bits_a bits_b bits_c .
qed

section \<open>The receive-side clock update\<close>

text \<open>
  Claim C3. For every local clock value \<open>l\<close> and every received message that decodes,
  carrying the remote clock \<open>r\<close>, \<^verbatim>\<open>handle_client\<close> sets the local clock to exactly
  \<open>max l r + 1\<close>, whether \<open>r \<le> l\<close> or \<open>r > l\<close>, and does so before any handler logic
  runs: the handler selected by the message type starts from the state \<open>st1\<close> whose
  clock is already \<open>max l r + 1\<close>, whose registry is still untouched and whose only new
  output is the line announcing the received message and the line announcing the new
  clock value. A handler that stamps a reply therefore uses \<open>max l r + 2\<close>.
\<close>

theorem clock_observed_before_dispatch:
  assumes "recv_data c = Some raw" and "raw \<noteq> []" and "parts = py_split (py_strip raw)"
    and "3 \<le> length parts" and "py_int (parts ! 1) = Some r"
  shows
   "(let l = global_clock st;
         st1 = observe r (say (ReceivedLine (py_strip raw)) st)
     in global_clock st1 = max l r + 1
        \<and> (r \<le> l \<longrightarrow> global_clock st1 = l + 1)
        \<and> (r > l \<longrightarrow> global_clock st1 = r + 1)
        \<and> peers st1 = peers st
        \<and> trace st1 = trace st @ [Print (ReceivedLine (py_strip raw)), Print (ClockLine (max l r + 1))]
        \<and> handle_client c st = emit ConnClose (dispatch c (parts ! 0) r (parts ! 2) parts st1)
        \<and> (global_clock (handle_client c st) = max l r + 1 \<or>
            global_clock (handle_client c st) = max l r + 2))"
proof -
  define st1 where "st1 = observe r (say (ReceivedLine (py_strip raw)) st)"
  have clk: "global_clock st1 = max (global_clock st) r + 1"
    by (simp add: st1_def)
  have run: "handle_client c st = emit ConnClose (dispatch c (parts ! 0) r (parts ! 2) parts st1)"
    unfolding st1_def using assms by (rule handle_client_decoded)
  have fin: "global_clock (handle_client c st) = max (global_clock st) r + 1 \<or>
        global_clock (handle_client c st) = max (global_clock st) r + 2"
    using dispatch_clock[of c "parts ! 0" r "parts ! 2" parts st1] by (auto simp add: run clk)
  have tr: "trace st1 = trace st @ [Print (ReceivedLine (py_strip raw)),
        Print (ClockLine (max (global_clock st) r + 1))]"
    by (simp add: st1_def)
  have ps: "peers st1 = peers st" by (simp add: st1_def)
  show ?thesis
    unfolding Let_def st1_def[symmetric] using clk run fin tr ps by auto
qed

theorem clock_observed_before_dispatch_witness:
  "global_clock (handle_client \<lparr>recv_data = Some ''p:1 7 HELLO'', send_ok = True, listing = None\<rparr>
      \<lparr>server_id = ''q:2'', shared_dir = ''/s'', global_clock = 4, peers = [], files = [], trace = []\<rparr>) = 8
   \<and> global_clock (handle_client \<lparr>recv_data = Some ''p:1 2 HELLO'', send_ok = True, listing = None\<rparr>
      \<lparr>server_id = ''q:2'', shared_dir = ''/s'', global_clock = 4, peers = [], files = [], trace = []\<rparr>) = 5"
proof -
  have s1: "py_split (py_strip ''p:1 7 HELLO'') = [''p:1'', ''7'', ''HELLO'']"
    and s2: "py_split (py_strip ''p:1 2 HELLO'') = [''p:1'', ''2'', ''HELLO'']"
    by (simp_all add: py_split_def py_strip_def is_space_def)
  have i1: "py_int ''7'' = Some 7" and i2: "py_int ''2'' = Some 2"
    by (simp_all add: py_int_def py_strip_def is_space_def is_digit_def digit_val_def ord_def)
  show ?thesis
    using clock_observed_before_dispatch
      [of "\<lparr>recv_data = Some ''p:1 7 HELLO'', send_ok = True, listing = None\<rparr>" "''p:1 7 HELLO''"
          "[''p:1'', ''7'', ''HELLO'']" 7
          "\<lparr>server_id = ''q:2'', shared_dir = ''/s'', global_clock = 4, peers = [], files = [], trace = []\<rparr>"]
      clock_observed_before_dispatch
      [of "\<lparr>recv_data = Some ''p:1 2 HELLO'', send_ok = True, listing = None\<rparr>" "''p:1 2 HELLO''"
          "[''p:1'', ''2'', ''HELLO'']" 2
          "\<lparr>server_id = ''q:2'', shared_dir = ''/s'', global_clock = 4, peers = [], files = [], trace = []\<rparr>"]
    by (simp add: s1 s2 i1 i2 Let_def dispatch_def hello_clock)
qed

section \<open>Messages that do not decode\<close>

text \<open>
  Claim C9. For every inbound message that fails to decode (fewer than three header
  fields, a clock field that is no integer, or a message type none of the five branches
  handles) the server hands nothing to \<^verbatim>\<open>conn.sendall\<close>, leaves the peer registry and
  the files as they were, and closes the connection as its last action. The handler
  returns normally on each of these paths: every exception is caught inside it, so the
  accept loop is not affected.
\<close>

theorem malformed_message_dropped:
  assumes "recv_data c = Some raw" and "parts = py_split (py_strip raw)"
    and "length parts < 3
         \<or> (3 \<le> length parts \<and> py_int (parts ! 1) = None)
         \<or> (3 \<le> length parts \<and> parts ! 2 \<notin> set [''HELLO'', ''GET_PEERS'', ''BYE'', ''LS'', ''DL''])"
  shows "replies (trace (handle_client c st)) = replies (trace st)
       \<and> peers (handle_client c st) = peers st
       \<and> files (handle_client c st) = files st
       \<and> last (trace (handle_client c st)) = ConnClose"
proof -
  consider (short) "length parts < 3"
    | (clock) "3 \<le> length parts" "py_int (parts ! 1) = None"
    | (type) r where "3 \<le> length parts" "py_int (parts ! 1) = Some r"
        "parts ! 2 \<notin> set [''HELLO'', ''GET_PEERS'', ''BYE'', ''LS'', ''DL'']"
    using assms(3) by (cases "py_int (parts ! 1)") auto
  then show ?thesis
  proof cases
    case short
    then show ?thesis
      using handle_client_short[of c raw st] assms(1,2) by simp
  next
    case clock
    then show ?thesis
      using handle_client_bad_clock[of c raw st] assms(1,2) by simp
  next
    case type
    have "raw \<noteq> []" using type(1) assms(2) by (auto simp: py_split_def py_strip_def)
    then have "handle_client c st =
        emit ConnClose (dispatch c (parts ! 0) r (parts ! 2) parts
          (observe r (say (ReceivedLine (py_strip raw)) st)))"
      using handle_client_decoded[of c raw parts r st] assms(1,2) type(1,2) by simp
    then show ?thesis
      using dispatch_unknown[OF type(3)] by simp
  qed
qed

theorem malformed_message_dropped_witness:
  "(let st = \<lparr>server_id = ''q:2'', shared_dir = ''/s'', global_clock = 4,
               peers = [(''p:1'', \<lparr>status = ''ONLINE'', clock = 3\<rparr>)], files = [], trace = []\<rparr>;
        short = \<lparr>recv_data = Some ''p:1 7'', send_ok = True, listing = None\<rparr>;
        bad_clock = \<lparr>recv_data = Some ''p:1 x7 BYE'', send_ok = True, listing = None\<rparr>;
        bad_type = \<lparr>recv_data = Some ''p:1 7 PING'', send_ok = True, listing = None\<rparr>
    in replies (trace (handle_client short st)) = [] \<and> peers (handle_client short st) = peers st
     \<and> last (trace (handle_client short st)) = ConnClose
     \<and> replies (trace (handle_client bad_clock st)) = [] \<and> peers (handle_client bad_clock st) = peers st
     \<and> last (trace (handle_client bad_clock st)) = ConnClose
     \<and> replies (trace (handle_client bad_type st)) = [] \<and> peers (handle_client bad_type st) = peers st
     \<and> last (trace (handle_client bad_type st)) = ConnClose)"
proof -
  have s1: "py_split (py_strip ''p:1 7'') = [''p:1'', ''7'']"
    and s2: "py_split (py_strip ''p:1 x7 BYE'') = [''p:1'', ''x7'', ''BYE'']"
    and s3: "py_split (py_strip ''p:1 7 PING'') = [''p:1'', ''7'', ''PING'']"
    by (simp_all add: py_split_def py_strip_def is_space_def)
  have i2: "py_int ''x7'' = None"
    by (simp add: py_int_def py_strip_def is_space_def is_digit_def digit_val_def ord_def)
  show ?thesis
    using malformed_message_dropped
      [of "\<lparr>recv_data = Some ''p:1 7'', send_ok = True, listing = None\<rparr>" "''p:1 7''"
          "[''p:1'', ''7'']"
          "\<lparr>server_id = ''q:2'', shared_dir = ''/s'', global_clock = 4,
               peers = [(''p:1'', \<lparr>status = ''ONLINE'', clock = 3\<rparr>)], files = [], trace = []\<rparr>"]
      malformed_message_dropped
      [of "\<lparr>recv_data = Some ''p:1 x7 BYE'', send_ok = True, listing = None\<rparr>" "''p:1 x7 BYE''"
          "[''p:1'', ''x7'', ''BYE'']"
          "\<lparr>server_id = ''q:2'', shared_dir = ''/s'', global_clock = 4,
               peers = [(''p:1'', \<lparr>status = ''ONLINE'', clock = 3\<rparr>)], files = [], trace = []\<rparr>"]
      malformed_message_dropped
      [of "\<lparr>recv_data = Some ''p:1 7 PING'', send_ok = True, listing = None\<rparr>" "''p:1 7 PING''"
          "[''p:1'', ''7'', ''PING'']"
          "\<lparr>server_id = ''q:2'', shared_dir = ''/s'', global_clock = 4,
               peers = [(''p:1'', \<lparr>status = ''ONLINE'', clock = 3\<rparr>)], files = [], trace = []\<rparr>"]
    by (simp add: s1 s2 s3 i2 Let_def)
qed

section \<open>Answering GET\_PEERS\<close>

text \<open>
  Claim C8. For every GET\_PEERS request from origin \<open>origem\<close>, the single reply is the
  PEER\_LIST built from all registry entries in registry order except the entry of
  \<open>origem\<close>, stamped with the clock after the receive update and one tick, and the
  registry after the request equals the registry before it: neither the entry of
  \<open>origem\<close> nor any other entry changes.
\<close>

theorem get_peers_request_frame:
  assumes "recv_data c = Some raw" and "parts = py_split (py_strip raw)"
    and "3 \<le> length parts" and "py_int (parts ! 1) = Some r"
    and "parts ! 2 = ''GET_PEERS''" and "origem = parts ! 0"
    and "others = filter (\<lambda>e. fst e \<noteq> origem) (peers st)"
  shows "peers (handle_client c st) = peers st
       \<and> replies (trace (handle_client c st)) = replies (trace st) @
           [server_id st @ '' '' @ show_int (max (global_clock st) r + 2) @ '' PEER_LIST ''
              @ show_nat (length others)
              @ (if others = [] then [] else '' '' @ py_join '' '' (map peer_entry others))
              @ [CHR 0x0A]]"
proof -
  have "raw \<noteq> []" using assms(2,3) by (auto simp: py_split_def py_strip_def)
  then have run: "handle_client c st =
      emit ConnClose (get_peers_handler c origem (observe r (say (ReceivedLine (py_strip raw)) st)))"
    using handle_client_decoded[of c raw parts r st] assms(1-6) by (simp add: dispatch_def)
  show ?thesis
    unfolding run using assms(7)
    by (simp add: get_peers_handler_peers get_peers_handler_replies add.commute add.left_commute)
qed

theorem get_peers_request_frame_witness:
  "(let st = \<lparr>server_id = ''q:2'', shared_dir = ''/s'', global_clock = 4,
               peers = [(''p:1'', \<lparr>status = ''ONLINE'', clock = 3\<rparr>),
                        (''p:3'', \<lparr>status = ''OFFLINE'', clock = 0\<rparr>)], files = [], trace = []\<rparr>;
        c = \<lparr>recv_data = Some ''p:1 7 GET_PEERS'', send_ok = True, listing = None\<rparr>
    in peers (handle_client c st) = peers st
     \<and> replies (trace (handle_client c st)) = [''q:2 9 PEER_LIST 1 p:3:OFFLINE:0'' @ [CHR 0x0A]])"
proof -
  have s1: "py_split (py_strip ''p:1 7 GET_PEERS'') = [''p:1'', ''7'', ''GET_PEERS'']"
    by (simp add: py_split_def py_strip_def is_space_def)
  have i1: "py_int ''7'' = Some 7"
    by (simp add: py_int_def py_strip_def is_space_def is_digit_def digit_val_def ord_def)
  have n: "show_int 9 = ''9''" "show_int 0 = ''0''" "show_nat (Suc 0) = ''1''"
    by (simp_all add: show_int_def show_nat.simps digit_char_def)
  show ?thesis
    using get_peers_request_frame
      [of "\<lparr>recv_data = Some ''p:1 7 GET_PEERS'', send_ok = True, listing = None\<rparr>"
          "''p:1 7 GET_PEERS''" "[''p:1'', ''7'', ''GET_PEERS'']" 7 "''p:1''"
          "[(''p:3'', \<lparr>status = ''OFFLINE'', clock = 0\<rparr>)]"
          "\<lparr>server_id = ''q:2'', shared_dir = ''/s'', global_clock = 4,
               peers = [(''p:1'', \<lparr>status = ''ONLINE'', clock = 3\<rparr>),
                        (''p:3'', \<lparr>status = ''OFFLINE'', clock = 0\<rparr>)], files = [], trace = []\<rparr>"]
    by (simp add: s1 i1 n Let_def peer_entry_def)
qed

section \<open>Repeating HELLO and BYE\<close>

text \<open>
  Claim C6, as stated, fails for HELLO: handling two HELLO messages of one peer with the
  same clock value prints the line "Atualizando peer ... status ONLINE e relogio para
  ..." both times, since line 109 sits after the \<^verbatim>\<open>if\<close>/\<^verbatim>\<open>else\<close> and runs on every
  HELLO.
\<close>

theorem hello_twice_logs_twice:
  "printed (trace (hello_handler ''p:1'' 5 (hello_handler ''p:1'' 5
      \<lparr>server_id = ''q:2'', shared_dir = ''/s'', global_clock = 0, peers = [], files = [],
         trace = []\<rparr>)))
   = [UpdateLine ''p:1'' ''ONLINE'' 5, UpdateLine ''p:1'' ''ONLINE'' 5]"
  by (simp add: hello_trace)

text \<open>
  Claim C6, amended. The BYE branch on a peer already OFFLINE changes nothing at all
  (no registry change, no output), and the BYE branch never changes a stored clock.
  The HELLO branch leaves the record ONLINE with the given clock; a second HELLO with
  the same clock value leaves the whole registry as the first one left it, and prints
  its update line once more.
\<close>

theorem registry_idempotence:
  "(map_of (peers st) p = Some info \<and> status info = ''OFFLINE'' \<longrightarrow> bye_handler p st = st)
   \<and> (\<forall>q. map_option clock (map_of (peers (bye_handler p st)) q)
            = map_option clock (map_of (peers st) q))
   \<and> map_of (peers (hello_handler p k st)) p = Some \<lparr>status = ''ONLINE'', clock = k\<rparr>
   \<and> peers (hello_handler p k (hello_handler p k st)) = peers (hello_handler p k st)
   \<and> trace (hello_handler p k (hello_handler p k st))
       = trace (hello_handler p k st) @ [Print (UpdateLine p ''ONLINE'' k)]"
  using bye_offline_noop[of st p info] bye_keeps_clocks[of p st]
    hello_sets_record[of p k st] hello_on_fresh_record[OF hello_sets_record[of p k st]]
    hello_trace[of p k "hello_handler p k st"]
  by simp

theorem registry_idempotence_witness:
  "(let st = \<lparr>server_id = ''q:2'', shared_dir = ''/s'', global_clock = 4,
               peers = [(''p:1'', \<lparr>status = ''OFFLINE'', clock = 3\<rparr>)], files = [], trace = []\<rparr>
    in bye_handler ''p:1'' st = st
     \<and> peers (hello_handler ''p:1'' 5 (hello_handler ''p:1'' 5 st))
         = [(''p:1'', \<lparr>status = ''ONLINE'', clock = 5\<rparr>)])"
  using registry_idempotence
    [of "\<lparr>server_id = ''q:2'', shared_dir = ''/s'', global_clock = 4,
               peers = [(''p:1'', \<lparr>status = ''OFFLINE'', clock = 3\<rparr>)], files = [], trace = []\<rparr>"
        "''p:1''" "\<lparr>status = ''OFFLINE'', clock = 3\<rparr>" 5]
  by (simp add: Let_def hello_handler_def)

section \<open>Merging gossip\<close>

text \<open>
  Claim C5. For every entry of a PEER\_LIST reply that names another node (an entry
  \<open>ip:port:status:clock\<close> whose clock is an integer and whose id \<open>ip:port\<close> is not
  the node's own): if the id is absent from the registry it is appended with exactly the
  given status and clock; if it is present and the stored pair differs in status or in
  clock, both fields are overwritten with the given values, whatever the stored clock was,
  and the entry keeps its place; if it is present with the same pair, nothing changes,
  not even the output. No other entry is touched.
\<close>

theorem gossip_merge:
  assumes "py_split_on (CHR '':'') peer_info = ip # port # stat # clk_s # rest"
    and "py_int clk_s = Some clk"
    and "pid = ip @ '':'' @ port" and "pid \<noteq> server_id st"
  shows "(map_of (peers st) pid = None \<longrightarrow>
            peers (merge_peer peer_info st) = peers st @ [(pid, \<lparr>status = stat, clock = clk\<rparr>)])
       \<and> (\<forall>info. map_of (peers st) pid = Some info \<and> (status info \<noteq> stat \<or> clock info \<noteq> clk) \<longrightarrow>
            peers (merge_peer peer_info st) = dict_set pid \<lparr>status = stat, clock = clk\<rparr> (peers st)
            \<and> map_of (peers (merge_peer peer_info st)) pid = Some \<lparr>status = stat, clock = clk\<rparr>
            \<and> map fst (peers (merge_peer peer_info st)) = map fst (peers st))
       \<and> (map_of (peers st) pid = Some \<lparr>status = stat, clock = clk\<rparr> \<longrightarrow>
            merge_peer peer_info st = st)
       \<and> (\<forall>q. q \<noteq> pid \<longrightarrow> map_of (peers (merge_peer peer_info st)) q = map_of (peers st) q)"
proof -
  have run: "merge_peer peer_info st = registry_merge pid stat clk st"
    using merge_peer_parsed[OF assms(1,2)] assms(3,4) by simp
  show ?thesis
    unfolding run
    using registry_merge_absent[of st pid stat clk] registry_merge_differs[of st pid _ stat clk]
      registry_merge_same[of st pid stat clk] registry_merge_others[of _ pid stat clk st]
    by (auto simp: map_of_dict_set dict_set_keys)
qed

theorem gossip_merge_witness:
  "(let st = \<lparr>server_id = ''q:2'', shared_dir = ''/s'', global_clock = 4,
               peers = [(''c:1'', \<lparr>status = ''ONLINE'', clock = 9\<rparr>)], files = [], trace = []\<rparr>
    in peers (merge_peer ''d:7:OFFLINE:3'' st)
         = [(''c:1'', \<lparr>status = ''ONLINE'', clock = 9\<rparr>), (''d:7'', \<lparr>status = ''OFFLINE'', clock = 3\<rparr>)]
     \<and> peers (merge_peer ''c:1:ONLINE:5'' st) = [(''c:1'', \<lparr>status = ''ONLINE'', clock = 5\<rparr>)]
     \<and> merge_peer ''c:1:ONLINE:9'' st = st)"
proof -
  have s: "py_split_on (CHR '':'') ''d:7:OFFLINE:3'' = [''d'', ''7'', ''OFFLINE'', ''3'']"
    "py_split_on (CHR '':'') ''c:1:ONLINE:5'' = [''c'', ''1'', ''ONLINE'', ''5'']"
    "py_split_on (CHR '':'') ''c:1:ONLINE:9'' = [''c'', ''1'', ''ONLINE'', ''9'']"
    by (simp_all add: py_split_on_def)
  have i: "py_int ''3'' = Some 3" "py_int ''5'' = Some 5" "py_int ''9'' = Some 9"
    by (simp_all add: py_int_def py_strip_def is_space_def is_digit_def digit_val_def ord_def)
  show ?thesis
    using gossip_merge
      [of "''d:7:OFFLINE:3''" "''d''" "''7''" "''OFFLINE''" "''3''" "[]" 3 "''d:7''"
          "\<lparr>server_id = ''q:2'', shared_dir = ''/s'', global_clock = 4,
               peers = [(''c:1'', \<lparr>status = ''ONLINE'', clock = 9\<rparr>)], files = [], trace = []\<rparr>"]
      gossip_merge
      [of "''c:1:ONLINE:5''" "''c''" "''1''" "''ONLINE''" "''5''" "[]" 5 "''c:1''"
          "\<lparr>server_id = ''q:2'', shared_dir = ''/s'', global_clock = 4,
               peers = [(''c:1'', \<lparr>status = ''ONLINE'', clock = 9\<rparr>)], files = [], trace = []\<rparr>"]
      gossip_merge
      [of "''c:1:ONLINE:9''" "''c''" "''1''" "''ONLINE''" "''9''" "[]" 9 "''c:1''"
          "\<lparr>server_id = ''q:2'', shared_dir = ''/s'', global_clock = 4,
               peers = [(''c:1'', \<lparr>status = ''ONLINE'', clock = 9\<rparr>)], files = [], trace = []\<rparr>"]
    by (simp add: s i Let_def)
qed

section \<open>The node never records itself\<close>

text \<open>
  Claim C7. Starting from a registry that does not hold the node's own identity, after
  any sequence of GET\_PEERS rounds (with any replies from the network) and loads of
  a neighbour file (with any content), \<^verbatim>\<open>server_id\<close> is unchanged and is not a key of
  the registry. A PEER\_LIST entry whose id equals \<^verbatim>\<open>server_id\<close> leaves the registry as
  it is, and a neighbour-file line equal to \<^verbatim>\<open>server_id\<close> leaves the whole state as it
  is.
\<close>

theorem no_self_peer:
  assumes "server_id st \<notin> known st"
  shows "server_id (foldl run_op st ops) = server_id st
       \<and> server_id st \<notin> known (foldl run_op st ops)
       \<and> (\<forall>e ip port stat clk_s rest.
            py_split_on (CHR '':'') e = ip # port # stat # clk_s # rest
            \<and> ip @ '':'' @ port = server_id st \<longrightarrow> peers (merge_peer e st) = peers st)
       \<and> (\<forall>raw. py_strip raw = server_id st \<longrightarrow> load_line raw st = st)"
  using foldl_run_op_no_self[OF assms, of ops] merge_peer_self[of _ _ _ _ _ _ st]
    load_line_self[of _ st]
  by blast

theorem no_self_peer_witness:
  "(let st = \<lparr>server_id = ''q:2'', shared_dir = ''/s'', global_clock = 0, peers = [], files = [],
               trace = []\<rparr>;
        ops = [LoadNeighbors (Some [''q:2'', ''p:1'']),
               RefreshPeers (\<lambda>p i. Answer ''p:1 4 PEER_LIST 2 q:2:ONLINE:1 d:7:OFFLINE:3'')]
    in server_id st \<notin> known st
     \<and> ''q:2'' \<notin> known (foldl run_op st ops)
     \<and> map fst (peers (foldl run_op st ops)) = [''p:1'', ''d:7'']
     \<and> peers (merge_peer ''q:2:ONLINE:1'' st) = peers st
     \<and> load_line ''q:2'' st = st)"
proof -
  have s: "py_split_on (CHR '':'') ''q:2:ONLINE:1'' = [''q'', ''2'', ''ONLINE'', ''1'']"
    by (simp add: py_split_on_def)
  have t: "py_strip ''q:2'' = ''q:2''"
    by (simp add: py_strip_def is_space_def)
  have run: "map fst (peers (foldl run_op
      \<lparr>server_id = ''q:2'', shared_dir = ''/s'', global_clock = 0, peers = [], files = [],
         trace = []\<rparr>
      [LoadNeighbors (Some [''q:2'', ''p:1'']),
       RefreshPeers (\<lambda>p i. Answer ''p:1 4 PEER_LIST 2 q:2:ONLINE:1 d:7:OFFLINE:3'')]))
      = [''p:1'', ''d:7'']"
    by code_simp
  show ?thesis
    using no_self_peer
      [of "\<lparr>server_id = ''q:2'', shared_dir = ''/s'', global_clock = 0, peers = [], files = [],
               trace = []\<rparr>"
          "[LoadNeighbors (Some [''q:2'', ''p:1'']),
               RefreshPeers (\<lambda>p i. Answer ''p:1 4 PEER_LIST 2 q:2:ONLINE:1 d:7:OFFLINE:3'')]"]
    unfolding Let_def
    by (intro conjI) (simp_all only: run, simp_all add: known_def s t)
qed

section \<open>Retries of send\_message\<close>

text \<open>
  Claim C2. For every call of \<^verbatim>\<open>send_message\<close> with a well-formed peer address: if
  the first connection attempt raises connection-refused, the call returns \<^verbatim>\<open>None\<close>
  after exactly one connection attempt; if both attempts time out and
  \<^verbatim>\<open>max_retries\<close> is 2, it returns \<^verbatim>\<open>None\<close> after exactly two attempts; if every
  attempt fails with a timeout or with another I/O error, it returns \<^verbatim>\<open>None\<close> after
  exactly \<^verbatim>\<open>max_retries\<close> attempts, so another error uses up the budget as a timeout
  does. More generally, after \<open>k\<close> attempts lost to timeouts or other errors, a refusal
  at attempt \<open>k\<close> ends the call with \<open>k + 1\<close> attempts made, and a reply at attempt \<open>k\<close>
  is returned with \<open>k + 1\<close> attempts made.
\<close>

theorem send_retry_policy:
  assumes "parse_addr peer_addr \<noteq> None"
  shows
   "(0 < max_retries \<and> raised expect_reply (script 0) = Some Refused \<longrightarrow>
       fst (send_message script peer_addr message expect_reply max_retries st) = Inr Failed
     \<and> connects (trace (snd (send_message script peer_addr message expect_reply max_retries st)))
         = connects (trace st) + 1)
  \<and> (max_retries = 2 \<and> (\<forall>i<2. raised expect_reply (script i) = Some Timeout) \<longrightarrow>
       fst (send_message script peer_addr message expect_reply max_retries st) = Inr Failed
     \<and> connects (trace (snd (send_message script peer_addr message expect_reply max_retries st)))
         = connects (trace st) + 2)
  \<and> ((\<forall>i < nat max_retries. raised expect_reply (script i) = Some Timeout
                             \<or> raised expect_reply (script i) = Some OtherIO) \<longrightarrow>
       fst (send_message script peer_addr message expect_reply max_retries st) = Inr Failed
     \<and> connects (trace (snd (send_message script peer_addr message expect_reply max_retries st)))
         = connects (trace st) + nat max_retries)
  \<and> (\<forall>k. k < nat max_retries
        \<and> (\<forall>i<k. raised expect_reply (script i) = Some Timeout
                   \<or> raised expect_reply (script i) = Some OtherIO)
        \<and> raised expect_reply (script k) = Some Refused \<longrightarrow>
       fst (send_message script peer_addr message expect_reply max_retries st) = Inr Failed
     \<and> connects (trace (snd (send_message script peer_addr message expect_reply max_retries st)))
         = connects (trace st) + k + 1)
  \<and> (\<forall>k reply. k < nat max_retries \<and> expect_reply
        \<and> (\<forall>i<k. raised expect_reply (script i) = Some Timeout
                   \<or> raised expect_reply (script i) = Some OtherIO)
        \<and> script k = Answer reply \<longrightarrow>
       fst (send_message script peer_addr message expect_reply max_retries st) = Inr (Reply reply)
     \<and> connects (trace (snd (send_message script peer_addr message expect_reply max_retries st)))
         = connects (trace st) + k + 1)"
proof -
  note run = send_message_attempts[OF assms, of script message expect_reply max_retries st]
  have ref: "fst (send_message script peer_addr message expect_reply max_retries st) = Inr Failed
     \<and> connects (trace (snd (send_message script peer_addr message expect_reply max_retries st)))
         = connects (trace st) + k + 1"
    if "k < nat max_retries"
      "\<forall>i<k. raised expect_reply (script i) = Some Timeout
                   \<or> raised expect_reply (script i) = Some OtherIO"
      "raised expect_reply (script k) = Some Refused" for k
  proof -
    have "[0..<nat max_retries] = [0..<k] @ k # [Suc k..<nat max_retries]"
      using range_split[OF that(1)] .
    then show ?thesis
      unfolding run
      using send_attempts_refused[of "[0..<k]" expect_reply script k peer_addr message max_retries
        "[Suc k..<nat max_retries]" st] that(2,3)
      by simp
  qed
  have one: "fst (send_message script peer_addr message expect_reply max_retries st) = Inr Failed
     \<and> connects (trace (snd (send_message script peer_addr message expect_reply max_retries st)))
         = connects (trace st) + 1"
    if "0 < max_retries" "raised expect_reply (script 0) = Some Refused"
    using ref[of 0] that by simp
  have all: "fst (send_message script peer_addr message expect_reply max_retries st) = Inr Failed
     \<and> connects (trace (snd (send_message script peer_addr message expect_reply max_retries st)))
         = connects (trace st) + nat max_retries"
    if "\<forall>i < nat max_retries. raised expect_reply (script i) = Some Timeout
                             \<or> raised expect_reply (script i) = Some OtherIO"
    using send_attempts_exhausted[of "[0..<nat max_retries]" expect_reply script peer_addr message
        max_retries st] that
    by (simp add: run)
  have two: "fst (send_message script peer_addr message expect_reply max_retries st) = Inr Failed
     \<and> connects (trace (snd (send_message script peer_addr message expect_reply max_retries st)))
         = connects (trace st) + 2"
    if "max_retries = 2" "\<forall>i<2. raised expect_reply (script i) = Some Timeout"
    using all that by simp
  have ans: "fst (send_message script peer_addr message expect_reply max_retries st) = Inr (Reply reply)
     \<and> connects (trace (snd (send_message script peer_addr message expect_reply max_retries st)))
         = connects (trace st) + k + 1"
    if "k < nat max_retries" "expect_reply"
      "\<forall>i<k. raised expect_reply (script i) = Some Timeout
                   \<or> raised expect_reply (script i) = Some OtherIO"
      "script k = Answer reply" for k reply
  proof -
    have "[0..<nat max_retries] = [0..<k] @ k # [Suc k..<nat max_retries]"
      using range_split[OF that(1)] .
    then show ?thesis
      unfolding run
      using send_attempts_answered[of "[0..<k]" script k reply peer_addr message max_retries
        "[Suc k..<nat max_retries]" st] that(2,3,4)
      by simp
  qed
  show ?thesis using one two all ref ans by blast
qed

theorem send_retry_policy_witness:
  "(let st = \<lparr>server_id = ''q:2'', shared_dir = ''/s'', global_clock = 0, peers = [], files = [],
               trace = []\<rparr>;
        refused = send_message (\<lambda>i. ConnectFails Refused) ''h:1'' ''HELLO'' False 2 st;
        silent = send_message (\<lambda>i. RecvFails Timeout) ''h:1'' ''LS'' True 2 st;
        flaky = send_message (\<lambda>i. if i = 0 then ConnectFails OtherIO else Answer ''ok'')
                  ''h:1'' ''LS'' True 2 st
    in fst refused = Inr Failed \<and> connects (trace (snd refused)) = 1
     \<and> fst silent = Inr Failed \<and> connects (trace (snd silent)) = 2
     \<and> fst flaky = Inr (Reply ''ok'') \<and> connects (trace (snd flaky)) = 2)"
proof -
  define st where "st = \<lparr>server_id = ''q:2'', shared_dir = ''/s'', global_clock = 0,
    peers = [], files = [], trace = []\<rparr>"
  have refused: "fst (send_message (\<lambda>i. ConnectFails Refused) ''h:1'' ''HELLO'' False 2 st) = Inr Failed
      \<and> connects (trace (snd (send_message (\<lambda>i. ConnectFails Refused) ''h:1'' ''HELLO'' False 2 st))) = 1"
    using send_retry_policy[OF addr_ok, of 2 False "\<lambda>i. ConnectFails Refused" "''HELLO''" st]
    by (simp add: st_def)
  have silent: "fst (send_message (\<lambda>i. RecvFails Timeout) ''h:1'' ''LS'' True 2 st) = Inr Failed
      \<and> connects (trace (snd (send_message (\<lambda>i. RecvFails Timeout) ''h:1'' ''LS'' True 2 st))) = 2"
    using send_retry_policy[OF addr_ok, of 2 True "\<lambda>i. RecvFails Timeout" "''LS''" st]
    by (simp add: st_def)
  have "\<forall>k reply. k < nat 2 \<and> True
        \<and> (\<forall>i<k. raised True (if i = 0 then ConnectFails OtherIO else Answer ''ok'') = Some Timeout
                   \<or> raised True (if i = 0 then ConnectFails OtherIO else Answer ''ok'') = Some OtherIO)
        \<and> (if k = 0 then ConnectFails OtherIO else Answer ''ok'') = Answer reply \<longrightarrow>
       fst (send_message (\<lambda>i. if i = 0 then ConnectFails OtherIO else Answer ''ok'') ''h:1'' ''LS'' True 2 st)
         = Inr (Reply reply)
     \<and> connects (trace (snd (send_message (\<lambda>i. if i = 0 then ConnectFails OtherIO else Answer ''ok'')
         ''h:1'' ''LS'' True 2 st))) = connects (trace st) + k + 1"
    using send_retry_policy[OF addr_ok, of 2 True
        "\<lambda>i. if i = 0 then ConnectFails OtherIO else Answer ''ok''" "''LS''" st]
    by blast
  from this[rule_format, of 1 "''ok''"]
  have flaky: "fst (send_message (\<lambda>i. if i = 0 then ConnectFails OtherIO else Answer ''ok'')
        ''h:1'' ''LS'' True 2 st) = Inr (Reply ''ok'')
     \<and> connects (trace (snd (send_message (\<lambda>i. if i = 0 then ConnectFails OtherIO else Answer ''ok'')
         ''h:1'' ''LS'' True 2 st))) = 2"
    by (simp add: st_def)
  show ?thesis
    using refused silent flaky by (simp add: Let_def st_def)
qed

section \<open>A peer that answers with nothing\<close>

text \<open>
  Claim C10. If the contacted peer accepts the connection and closes it without sending
  a byte (\<^verbatim>\<open>recv\<close> returns the empty text on the first attempt), \<^verbatim>\<open>send_message\<close>
  with \<^verbatim>\<open>expect_reply=True\<close> returns the empty string, not \<^verbatim>\<open>None\<close>, after one
  connection attempt and one request written. Both callers that fan out, the GET\_PEERS
  round and the LS round, take the empty string as a failure: the peer's record ends
  with status OFFLINE (its clock kept), no exception leaves the loop body, and the LS
  round adds no file.
\<close>

theorem empty_reply_marks_offline:
  assumes "parse_addr peer_addr \<noteq> None" and "script 0 = Answer []"
    and "map_of (peers st) peer_addr = Some info"
  shows "fst (send_message script peer_addr message True 2 st) = Inr (Reply [])
       \<and> connects (trace (snd (send_message script peer_addr message True 2 st)))
           = connects (trace st) + 1
       \<and> requests (trace (snd (send_message script peer_addr message True 2 st)))
           = requests (trace st) @
               [server_id st @ '' '' @ show_int (global_clock st + 1) @ '' ''
                  @ py_strip message @ [CHR 0x0A]]
       \<and> fst (get_peers_peer script peer_addr st) = None
       \<and> map_of (peers (snd (get_peers_peer script peer_addr st))) peer_addr
           = Some (info\<lparr>status := ''OFFLINE''\<rparr>)
       \<and> fst (search_files_peer script peer_addr found st) = None
       \<and> fst (snd (search_files_peer script peer_addr found st)) = found
       \<and> map_of (peers (snd (snd (search_files_peer script peer_addr found st)))) peer_addr
           = Some (info\<lparr>status := ''OFFLINE''\<rparr>)"
proof -
  have sm: "send_message script peer_addr m True 2 s =
      (Inr (Reply []), write_request peer_addr m (emit (Connect peer_addr) s))" for m s
    using send_message_first_answer[of peer_addr script "[]" m s] assms(1,2) by simp
  have a: "fst (send_message script peer_addr message True 2 st) = Inr (Reply [])
       \<and> connects (trace (snd (send_message script peer_addr message True 2 st)))
           = connects (trace st) + 1
       \<and> requests (trace (snd (send_message script peer_addr message True 2 st)))
           = requests (trace st) @
               [server_id st @ '' '' @ show_int (global_clock st + 1) @ '' ''
                  @ py_strip message @ [CHR 0x0A]]"
    by (simp add: sm write_request_trace)
  define st1 where "st1 = snd (update_clock st)"
  have uc: "update_clock st = (global_clock st + 1, st1)"
    by (simp add: st1_def update_clock_def Let_def)
  define st2 where "st2 = write_request peer_addr ''GET_PEERS'' (emit (Connect peer_addr) st1)"
  have p2: "map_of (peers st2) peer_addr = Some info"
    using assms(3) by (simp add: st2_def st1_def)
  obtain st3 where s3: "set_status peer_addr ''OFFLINE'' st2 = Inr st3"
    "map_of (peers st3) peer_addr = Some (info\<lparr>status := ''OFFLINE''\<rparr>)"
    using set_status_present[OF p2, of "''OFFLINE''"] by auto
  have g: "get_peers_peer script peer_addr st = (None, st3)"
    by (simp add: get_peers_peer_def uc sm st2_def[symmetric] s3)
  define t2 where "t2 = write_request peer_addr ''LS'' (emit (Connect peer_addr) st)"
  have q2: "map_of (peers t2) peer_addr = Some info"
    using assms(3) by (simp add: t2_def)
  obtain t3 where u3: "set_status peer_addr ''OFFLINE'' t2 = Inr t3"
    "map_of (peers t3) peer_addr = Some (info\<lparr>status := ''OFFLINE''\<rparr>)"
    using set_status_present[OF q2, of "''OFFLINE''"] by auto
  have l: "search_files_peer script peer_addr found st = (None, found, t3)"
    by (simp add: search_files_peer_def sm t2_def[symmetric] u3)
  show ?thesis
    using a by (simp add: g l s3 u3)
qed

theorem empty_reply_marks_offline_witness:
  "(let st = \<lparr>server_id = ''q:2'', shared_dir = ''/s'', global_clock = 0,
               peers = [(''h:1'', \<lparr>status = ''ONLINE'', clock = 3\<rparr>)], files = [], trace = []\<rparr>;
        silent = (\<lambda>i. Answer [])
    in fst (send_message silent ''h:1'' ''LS'' True 2 st) = Inr (Reply [])
     \<and> connects (trace (snd (send_message silent ''h:1'' ''LS'' True 2 st))) = 1
     \<and> map_of (peers (snd (get_peers_peer silent ''h:1'' st))) ''h:1''
         = Some \<lparr>status = ''OFFLINE'', clock = 3\<rparr>
     \<and> map_of (peers (snd (snd (search_files_peer silent ''h:1'' [] st)))) ''h:1''
         = Some \<lparr>status = ''OFFLINE'', clock = 3\<rparr>)"
  using empty_reply_marks_offline[OF addr_ok, of "\<lambda>i. Answer []"
      "\<lparr>server_id = ''q:2'', shared_dir = ''/s'', global_clock = 0,
               peers = [(''h:1'', \<lparr>status = ''ONLINE'', clock = 3\<rparr>)], files = [], trace = []\<rparr>"
      "\<lparr>status = ''ONLINE'', clock = 3\<rparr>" "''LS''" "[]"]
  by (simp add: Let_def)

section \<open>One tick per message sent\<close>

text \<open>
  Claim C4 says that the clock advances by exactly one per message the node originates.
  The code departs from it in the GET\_PEERS round: whenever the contacted peer answers
  the first attempt, one pass of the body of that loop writes exactly one request and
  advances the clock by two, since line 372 calls \<^verbatim>\<open>update_clock\<close> (and never uses the
  value) before \<^verbatim>\<open>send_message\<close> calls it again at line 58; the request carries the
  second value. The body of the LS loop, which has no such call, advances the clock by
  one for its one request.
\<close>

theorem get_peers_round_ticks_twice:
  assumes "parse_addr peer_addr \<noteq> None" and "script 0 = Answer reply"
  shows "global_clock (snd (get_peers_peer script peer_addr st)) = global_clock st + 2
       \<and> requests (trace (snd (get_peers_peer script peer_addr st)))
           = requests (trace st) @
               [server_id st @ '' '' @ show_int (global_clock st + 2) @ '' GET_PEERS'' @ [CHR 0x0A]]
       \<and> global_clock (snd (snd (search_files_peer script peer_addr found st))) = global_clock st + 1
       \<and> requests (trace (snd (snd (search_files_peer script peer_addr found st))))
           = requests (trace st) @
               [server_id st @ '' '' @ show_int (global_clock st + 1) @ '' LS'' @ [CHR 0x0A]]"
proof -
  have sm: "send_message script peer_addr m True 2 s =
      (Inr (Reply reply), write_request peer_addr m (emit (Connect peer_addr) s))" for m s
    using send_message_first_answer[of peer_addr script reply m s] assms by simp
  define st1 where "st1 = snd (update_clock st)"
  have uc: "update_clock st = (global_clock st + 1, st1)"
    by (simp add: st1_def update_clock_def Let_def)
  define st2 where "st2 = write_request peer_addr ''GET_PEERS'' (emit (Connect peer_addr) st1)"
  have c2: "global_clock st2 = global_clock st + 2"
    by (simp add: st2_def st1_def)
  have r2: "requests (trace st2) = requests (trace st) @
      [server_id st @ '' '' @ show_int (global_clock st + 2) @ '' GET_PEERS'' @ [CHR 0x0A]]"
    by (simp add: st2_def st1_def write_request_trace strip_literals add.commute)
  have g: "global_clock (snd (get_peers_peer script peer_addr st)) = global_clock st2 \<and>
      requests (trace (snd (get_peers_peer script peer_addr st))) = requests (trace st2)"
    using get_peers_reply_quiet[of peer_addr reply st2]
    by (auto simp: get_peers_peer_def uc sm st2_def[symmetric]
        split: sum.splits dest!: set_status_quiet)
  define t2 where "t2 = write_request peer_addr ''LS'' (emit (Connect peer_addr) st)"
  have d2: "global_clock t2 = global_clock st + 1"
    by (simp add: t2_def)
  have q2: "requests (trace t2) = requests (trace st) @
      [server_id st @ '' '' @ show_int (global_clock st + 1) @ '' LS'' @ [CHR 0x0A]]"
    by (simp add: t2_def write_request_trace strip_literals)
  have l: "global_clock (snd (snd (search_files_peer script peer_addr found st))) = global_clock t2 \<and>
      requests (trace (snd (snd (search_files_peer script peer_addr found st)))) = requests (trace t2)"
    using ls_reply_quiet[of peer_addr reply found t2]
    by (auto simp: search_files_peer_def sm t2_def[symmetric]
        split: sum.splits prod.splits dest!: set_status_quiet)
  show ?thesis
    using g l by (simp add: c2 r2 d2 q2)
qed

theorem get_peers_round_ticks_twice_witness:
  "requests (trace (snd (get_peers_peer (\<lambda>i. Answer ''h:1 1 PEER_LIST 0'') ''h:1'' demo_client)))
     = [''q:2 2 GET_PEERS'' @ [CHR 0x0A]]
   \<and> global_clock (snd (get_peers_peer (\<lambda>i. Answer ''h:1 1 PEER_LIST 0'') ''h:1'' demo_client)) = 2
   \<and> requests (trace (snd (command_get_peers (\<lambda>p i. Answer ''h:1 1 PEER_LIST 0'') demo_client)))
     = [''q:2 2 GET_PEERS'' @ [CHR 0x0A]]
   \<and> global_clock (snd (command_get_peers (\<lambda>p i. Answer ''h:1 1 PEER_LIST 0'') demo_client)) = 2
   \<and> printed (trace (snd (command_get_peers (\<lambda>p i. Answer ''h:1 1 PEER_LIST 0'') demo_client)))
     = [ClockLine 1, ClockLine 2, ForwardLine ''q:2 2 GET_PEERS'' ''h:1'']
   \<and> requests (trace (snd (snd (search_files_peer (\<lambda>i. Answer ''h:1 1 LS_LIST 0'') ''h:1'' []
        demo_client)))) = [''q:2 1 LS'' @ [CHR 0x0A]]
   \<and> global_clock (snd (snd (search_files_peer (\<lambda>i. Answer ''h:1 1 LS_LIST 0'') ''h:1'' []
        demo_client))) = 1"
proof -
  have n: "show_int 2 = ''2''" "show_int 1 = ''1''"
    by code_simp+
  have f: "global_clock demo_client = 0" "trace demo_client = []" "server_id demo_client = ''q:2''"
    by (simp_all add: demo_client_def)
  have a: "requests (trace (snd (get_peers_peer (\<lambda>i. Answer ''h:1 1 PEER_LIST 0'') ''h:1'' demo_client)))
     = [''q:2 2 GET_PEERS'' @ [CHR 0x0A]]
   \<and> global_clock (snd (get_peers_peer (\<lambda>i. Answer ''h:1 1 PEER_LIST 0'') ''h:1'' demo_client)) = 2"
    using get_peers_round_ticks_twice[OF addr_ok, of "\<lambda>i. Answer ''h:1 1 PEER_LIST 0''"
        "''h:1 1 PEER_LIST 0''" demo_client]
    by (simp add: n f)
  have b: "requests (trace (snd (command_get_peers (\<lambda>p i. Answer ''h:1 1 PEER_LIST 0'') demo_client)))
     = [''q:2 2 GET_PEERS'' @ [CHR 0x0A]]
   \<and> global_clock (snd (command_get_peers (\<lambda>p i. Answer ''h:1 1 PEER_LIST 0'') demo_client)) = 2
   \<and> printed (trace (snd (command_get_peers (\<lambda>p i. Answer ''h:1 1 PEER_LIST 0'') demo_client)))
     = [ClockLine 1, ClockLine 2, ForwardLine ''q:2 2 GET_PEERS'' ''h:1'']
   \<and> requests (trace (snd (snd (search_files_peer (\<lambda>i. Answer ''h:1 1 LS_LIST 0'') ''h:1'' []
        demo_client)))) = [''q:2 1 LS'' @ [CHR 0x0A]]
   \<and> global_clock (snd (snd (search_files_peer (\<lambda>i. Answer ''h:1 1 LS_LIST 0'') ''h:1'' []
        demo_client))) = 1"
    by code_simp
  from a b show ?thesis by blast
qed

section \<open>Downloading a served file\<close>

text \<open>
  Claim C1 says that the bytes written by the downloading side equal the bytes of the
  source file. The code departs from it for every file: the DL branch answers
  \<open>server_id clock FILE name 0 0 payload\<close> with the base64 payload as field 6, and
  the downloading side (line 234) decodes field 5, which is the literal \<open>0\<close>. That is no
  base64 text, the decoder raises, line 251 catches the error, and no file is written:
  the files of the downloading node are as before, whatever the content served. The
  codec is not at fault: decoding the payload itself gives the bytes of the file back.
\<close>

theorem served_file_is_never_written:
  assumes "server_id srv \<noteq> []" and "no_space (server_id srv)"
    and "4 \<le> length parts" and "parts ! 3 \<noteq> []" and "no_space (parts ! 3)"
    and "map_of (files srv) (path_join (shared_dir srv) (parts ! 3)) = Some bs"
    and "reply = server_id srv @ '' '' @ show_int (global_clock srv + 1) @ '' FILE '' @ parts ! 3
                   @ '' 0 0 '' @ b64encode bs @ [CHR 0x0A]"
  shows "replies (trace (dl_handler c parts srv)) = replies (trace srv) @ [reply]
       \<and> py_split (py_strip reply) ! 5 = ''0''
       \<and> b64decode ''0'' = Inl ValueError
       \<and> b64decode (b64encode bs) = Inr bs
       \<and> writes (trace (file_reply peer_addr reply cl)) = writes (trace cl)
       \<and> files (file_reply peer_addr reply cl) = files cl
       \<and> printed (trace (file_reply peer_addr reply cl))
           = printed (trace cl) @ [ReplyReceivedLine reply, InvalidNumberLine]"
  using dl_handler_reply[OF assms(3,6), of c]
    file_reply_served[OF assms(1,2,4,5), of reply "global_clock srv + 1"
      "b64encode bs @ [CHR 0x0A]" peer_addr cl] assms(7)
  by (simp add: b64decode_zero b64_roundtrip)

theorem served_file_is_never_written_witness:
  "replies (trace (dl_handler \<lparr>recv_data = None, send_ok = True, listing = None\<rparr>
       [''q:2'', ''1'', ''DL'', ''a.txt'', ''0'', ''0''] demo_server))
     = [''h:1 1 FILE a.txt 0 0 QQ=='' @ [CHR 0x0A]]
   \<and> writes (trace (file_reply ''h:1'' (''h:1 1 FILE a.txt 0 0 QQ=='' @ [CHR 0x0A]) demo_client)) = []
   \<and> files (file_reply ''h:1'' (''h:1 1 FILE a.txt 0 0 QQ=='' @ [CHR 0x0A]) demo_client) = []
   \<and> demo_served ''a.txt'' = ''h:1 3 FILE a.txt 0 0 QQ=='' @ [CHR 0x0A]
   \<and> b64decode ''QQ=='' = Inr [0x41]
   \<and> writes (trace (demo_fetched ''a.txt'')) = [] \<and> files (demo_fetched ''a.txt'') = []
   \<and> demo_served ''empty'' = ''h:1 3 FILE empty 0 0 '' @ [CHR 0x0A]
   \<and> writes (trace (demo_fetched ''empty'')) = [] \<and> files (demo_fetched ''empty'') = []
   \<and> writes (trace (demo_fetched ''all'')) = [] \<and> files (demo_fetched ''all'') = []"
proof -
  have h1: "server_id demo_server \<noteq> []"
    by (simp add: demo_server_def)
  have h2: "no_space (server_id demo_server)"
    by code_simp
  have h3: "4 \<le> length [''q:2'', ''1'', ''DL'', ''a.txt'', ''0'', ''0'']"
    by simp
  have h4: "[''q:2'', ''1'', ''DL'', ''a.txt'', ''0'', ''0''] ! 3 \<noteq> []"
    by simp
  have h5: "no_space ([''q:2'', ''1'', ''DL'', ''a.txt'', ''0'', ''0''] ! 3)"
    by code_simp
  have h6: "map_of (files demo_server)
      (path_join (shared_dir demo_server) ([''q:2'', ''1'', ''DL'', ''a.txt'', ''0'', ''0''] ! 3))
      = Some [0x41]"
    by code_simp
  have h7: "''h:1 1 FILE a.txt 0 0 QQ=='' @ [CHR 0x0A]
      = server_id demo_server @ '' '' @ show_int (global_clock demo_server + 1) @ '' FILE ''
          @ [''q:2'', ''1'', ''DL'', ''a.txt'', ''0'', ''0''] ! 3 @ '' 0 0 '' @ b64encode [0x41]
          @ [CHR 0x0A]"
    by code_simp
  have t0: "trace demo_server = []" "trace demo_client = []" "files demo_client = []"
    by (simp_all add: demo_server_def demo_client_def)
  have inst: "replies (trace (dl_handler \<lparr>recv_data = None, send_ok = True, listing = None\<rparr>
       [''q:2'', ''1'', ''DL'', ''a.txt'', ''0'', ''0''] demo_server))
     = [''h:1 1 FILE a.txt 0 0 QQ=='' @ [CHR 0x0A]]
   \<and> writes (trace (file_reply ''h:1'' (''h:1 1 FILE a.txt 0 0 QQ=='' @ [CHR 0x0A]) demo_client)) = []
   \<and> files (file_reply ''h:1'' (''h:1 1 FILE a.txt 0 0 QQ=='' @ [CHR 0x0A]) demo_client) = []"
    using served_file_is_never_written
      [OF h1 h2 h3 h4 h5 h6 h7, of "\<lparr>recv_data = None, send_ok = True, listing = None\<rparr>"
         "''h:1''" demo_client]
    unfolding t0 by simp
  have full: "demo_served ''a.txt'' = ''h:1 3 FILE a.txt 0 0 QQ=='' @ [CHR 0x0A]
   \<and> b64decode ''QQ=='' = Inr [0x41]
   \<and> writes (trace (demo_fetched ''a.txt'')) = [] \<and> files (demo_fetched ''a.txt'') = []
   \<and> demo_served ''empty'' = ''h:1 3 FILE empty 0 0 '' @ [CHR 0x0A]
   \<and> writes (trace (demo_fetched ''empty'')) = [] \<and> files (demo_fetched ''empty'') = []
   \<and> writes (trace (demo_fetched ''all'')) = [] \<and> files (demo_fetched ''all'') = []"
    by code_simp
  from inst full show ?thesis by blast
qed

end
